theory Spec2Isabelle
  imports Complex_Main "HOL-Library.Sublist"
begin

section \<open>JavaScript numbers and the numeric built-ins the handler uses\<close>

text \<open>
  The suggestion handler (\<^verbatim>\<open>POST\<close> of the suggestions route) computes with
  JavaScript numbers. Finite values are modelled as exact rationals; the three
  non-finite values are kept, because the handler tests for them
  (\<^verbatim>\<open>Number.isFinite\<close>) and because a division by zero yields them.
  Binary rounding of IEEE doubles and the sign of zero are not modelled.
\<close>

datatype number = Finite rat | PosInfinity | NegInfinity | NaN

text \<open>\<^verbatim>\<open>a / b\<close> on two finite numbers.\<close>

definition divide_num :: "rat \<Rightarrow> rat \<Rightarrow> number" where
  "divide_num a b =
     (if b \<noteq> 0 then Finite (a / b)
      else if 0 < a then PosInfinity
      else if a < 0 then NegInfinity
      else NaN)"

text \<open>\<^verbatim>\<open>n * r\<close> for a finite factor \<open>r\<close>.\<close>

fun times_num :: "number \<Rightarrow> rat \<Rightarrow> number" where
  "times_num (Finite a) r = Finite (a * r)"
| "times_num PosInfinity r =
     (if 0 < r then PosInfinity else if r < 0 then NegInfinity else NaN)"
| "times_num NegInfinity r =
     (if 0 < r then NegInfinity else if r < 0 then PosInfinity else NaN)"
| "times_num NaN r = NaN"

text \<open>\<^verbatim>\<open>a - b\<close>.\<close>

fun minus_num :: "number \<Rightarrow> number \<Rightarrow> number" where
  "minus_num (Finite a) (Finite b) = Finite (a - b)"
| "minus_num (Finite a) PosInfinity = NegInfinity"
| "minus_num (Finite a) NegInfinity = PosInfinity"
| "minus_num PosInfinity (Finite b) = PosInfinity"
| "minus_num PosInfinity NegInfinity = PosInfinity"
| "minus_num PosInfinity PosInfinity = NaN"
| "minus_num NegInfinity (Finite b) = NegInfinity"
| "minus_num NegInfinity PosInfinity = NegInfinity"
| "minus_num NegInfinity NegInfinity = NaN"
| "minus_num NaN b = NaN"
| "minus_num a NaN = NaN"

text \<open>\<^verbatim>\<open>n >= r\<close> and \<^verbatim>\<open>n > 0\<close>; every comparison with NaN is false.\<close>

fun ge_num :: "number \<Rightarrow> rat \<Rightarrow> bool" where
  "ge_num (Finite a) r = (r \<le> a)"
| "ge_num PosInfinity r = True"
| "ge_num NegInfinity r = False"
| "ge_num NaN r = False"

fun positive_num :: "number \<Rightarrow> bool" where
  "positive_num (Finite a) = (0 < a)"
| "positive_num PosInfinity = True"
| "positive_num NegInfinity = False"
| "positive_num NaN = False"

text \<open>
  \<^verbatim>\<open>Math.round\<close> rounds to the nearest integer, a tie towards plus infinity;
  \<^verbatim>\<open>Math.ceil\<close> is the ceiling.
\<close>

definition Math_round :: "rat \<Rightarrow> int" where
  "Math_round x = \<lfloor>x + 1 / 2\<rfloor>"

definition Math_ceil :: "rat \<Rightarrow> int" where
  "Math_ceil x = \<lceil>x\<rceil>"

text \<open>
  \<^verbatim>\<open>parseFloat(x.toFixed(2))\<close>: the nearest multiple of \<open>1/100\<close>, a tie away from
  zero (\<^verbatim>\<open>toFixed\<close> formats the absolute value and picks the larger digit string
  on a tie). The non-finite values print as their names and parse back unchanged.
\<close>

definition toFixed2 :: "rat \<Rightarrow> rat" where
  "toFixed2 x =
     (if x < 0 then - (of_int \<lfloor>(- x) * 100 + 1 / 2\<rfloor> / 100)
      else of_int \<lfloor>x * 100 + 1 / 2\<rfloor> / 100)"

fun toFixed2_num :: "number \<Rightarrow> number" where
  "toFixed2_num (Finite a) = Finite (toFixed2 a)"
| "toFixed2_num n = n"

section \<open>Data model\<close>

datatype suggestion_type = PUT | CALL | COVERED_CALL

record StockSuggestion =
  symbol :: string
  currentPrice :: rat
  strikePrice :: rat
  expirationDate :: string
  daysToExpiration :: int
  premium :: rat
  roi :: number
  annualizedRoi :: number
  capitalRequired :: int
  breakEven :: rat
  contract :: string
  type :: suggestion_type

datatype source_tag = Live | Mock

record SuggestionResponse =
  suggestions :: "StockSuggestion list"
  source :: source_tag
  debug :: "string option"

text \<open>
  What \<^verbatim>\<open>NextResponse.json\<close> is called with: the success body (status 200), the
  \<^verbatim>\<open>ErrorResponse\<close> with its \<^verbatim>\<open>error\<close> and \<^verbatim>\<open>details\<close> (status 400), or the
  internal error (status 500).
\<close>

datatype http_response =
    Json200 SuggestionResponse
  | Json400 string string
  | Json500 string

section \<open>Input validation\<close>

text \<open>
  \<^verbatim>\<open>clampNumber\<close>. Its first line coerces the raw field,
  \<^verbatim>\<open>n = typeof v === 'number' ? v : Number(v)\<close>; the model starts from the coerced
  number \<open>n\<close>.
\<close>

definition clampNumber :: "number \<Rightarrow> rat \<Rightarrow> rat \<Rightarrow> rat option" where
  "clampNumber n mn mx =
     (case n of Finite x \<Rightarrow> Some (min mx (max mn x)) | _ \<Rightarrow> None)"

text \<open>
  \<^verbatim>\<open>parseSymbols\<close>: split at commas, trim, upper-case, drop the empty pieces,
  de-duplicate keeping the first occurrence (the insertion order of a \<^verbatim>\<open>Set\<close>).
  Characters are bytes here: trimming and upper-casing are those of ASCII.
\<close>

fun split_on :: "char \<Rightarrow> string \<Rightarrow> string list" where
  "split_on c [] = [[]]"
| "split_on c (x # xs) =
     (if x = c then [] # split_on c xs
      else (case split_on c xs of [] \<Rightarrow> [[x]] | w # ws \<Rightarrow> (x # w) # ws))"

definition is_space :: "char \<Rightarrow> bool" where
  "is_space c = (c \<in> set [CHR '' '', CHR 0x09, CHR 0x0A, CHR 0x0B, CHR 0x0C, CHR 0x0D])"

definition trim :: "string \<Rightarrow> string" where
  "trim s = rev (dropWhile is_space (rev (dropWhile is_space s)))"

definition upper_char :: "char \<Rightarrow> char" where
  "upper_char c =
     (let n = (of_char c :: nat) in if 97 \<le> n \<and> n \<le> 122 then char_of (n - 32) else c)"

definition toUpperCase :: "string \<Rightarrow> string" where
  "toUpperCase s = map upper_char s"

fun set_add_all :: "'a list \<Rightarrow> 'a list \<Rightarrow> 'a list" where
  "set_add_all seen [] = seen"
| "set_add_all seen (x # xs) = set_add_all (if x \<in> set seen then seen else seen @ [x]) xs"

definition parseSymbols :: "string option \<Rightarrow> string list" where
  "parseSymbols whitelist =
     (let raw = (case whitelist of Some s \<Rightarrow> s | None \<Rightarrow> []);
          symbols = filter (\<lambda>s. length s > 0) (map (\<lambda>s. toUpperCase (trim s)) (split_on CHR '','' raw))
      in set_add_all [] symbols)"

section \<open>The result cache\<close>

text \<open>
  The cache key is the string
  \<^verbatim>\<open>`${symbol}|cap=${capital}|roi=${desiredRoi}|w=${expirationWeeks}`\<close>. The three
  numbers print without the separator \<^verbatim>\<open>|\<close>, so the string determines the four
  components; the model keeps the key as the tuple.
\<close>

type_synonym cache_key = "string \<times> rat \<times> rat \<times> rat"

record CacheEntry =
  ts :: int
  cached :: "StockSuggestion list"

type_synonym wheel_cache = "cache_key \<rightharpoonup> CacheEntry"

definition CACHE_TTL_MS :: int where
  "CACHE_TTL_MS = 10 * 60 * 1000"

section \<open>The market data gateway and the runtime\<close>

text \<open>
  The gateway (\<^verbatim>\<open>yahooFinance\<close>) is outside the repository. Its calls are fields of
  an environment; \<open>None\<close> stands for a call that throws. A price field that is
  absent (\<^verbatim>\<open>undefined\<close> or \<^verbatim>\<open>null\<close>) is \<open>None\<close>. Expiration dates are given
  as epoch milliseconds, after the handler's conversion to \<^verbatim>\<open>Date\<close>; a date the
  conversion makes invalid is dropped by the handler's filter and is left out.
  The environment also holds the clock (one reading per request), the stream of
  \<^verbatim>\<open>Math.random()\<close> values, the two formatting built-ins and the environment
  variable \<^verbatim>\<open>DISABLE_MOCK_FALLBACK\<close>.
\<close>

record Quote =
  regularMarketPrice :: "rat option"
  quote_bid :: "rat option"
  quote_ask :: "rat option"
  regularMarketPreviousClose :: "rat option"

record OptionContract =
  strike :: rat
  bid :: "rat option"
  lastPrice :: "rat option"
  contractSymbol :: string

record OptionGroup =
  puts :: "OptionContract list"
  calls :: "OptionContract list"

record env =
  yahoo_quote :: "string \<Rightarrow> Quote option"
  yahoo_options :: "string \<Rightarrow> int list option"
  yahoo_chain :: "string \<Rightarrow> int \<Rightarrow> OptionGroup list option"
  yahoo_chart :: "string \<Rightarrow> string \<Rightarrow> string \<Rightarrow> rat option list option"
  Date_now :: int
  Math_random :: "nat \<Rightarrow> rat"
  toISODate :: "int \<Rightarrow> string"
  numberToString :: "rat \<Rightarrow> string"
  DISABLE_MOCK_FALLBACK :: bool

text \<open>What the handler asks of the outside, in order.\<close>

datatype effect =
    QuoteCall string
  | OptionsCall string
  | ChainCall string int
  | ChartCall string string string
  | MockCall string "rat option"

definition MS_PER_DAY :: int where
  "MS_PER_DAY = 1000 * 3600 * 24"

text \<open>
  \<^verbatim>\<open>d.setDate(today.getDate() + k)\<close>: the instant \<open>k\<close> days later (the argument is
  truncated to an integer; daylight-saving shifts of local time are not modelled).
\<close>

definition addDays :: "int \<Rightarrow> rat \<Rightarrow> int" where
  "addDays t k = t + \<lfloor>k\<rfloor> * MS_PER_DAY"

text \<open>JavaScript truthiness of an optional number, and \<^verbatim>\<open>a || b\<close>.\<close>

definition truthy :: "rat option \<Rightarrow> bool" where
  "truthy v = (case v of None \<Rightarrow> False | Some x \<Rightarrow> x \<noteq> 0)"

definition or_else :: "rat option \<Rightarrow> rat option \<Rightarrow> rat option" where
  "or_else a b = (if truthy a then a else b)"

section \<open>The synthetic suggestion generator\<close>

definition stockMap :: "string \<rightharpoonup> rat" where
  "stockMap = map_of
     [(''PLTR'', 170), (''SOFI'', 15), (''AMD'', 200), (''TSLA'', 350), (''NVDA'', 140),
      (''AAPL'', 220), (''GOOGL'', 180), (''MSFT'', 450), (''AMZN'', 200)]"

text \<open>
  A \<^verbatim>\<open>for\<close> loop whose body pushes suggestions and draws random numbers: the body
  maps the number of draws so far and the loop variable to what it pushes and the
  new number of draws.
\<close>

fun for_each :: "(nat \<Rightarrow> 'a \<Rightarrow> 'b list \<times> nat) \<Rightarrow> nat \<Rightarrow> 'a list \<Rightarrow> 'b list \<times> nat" where
  "for_each body k [] = ([], k)"
| "for_each body k (x # xs) =
     (let (ys, k1) = body k x; (zs, k2) = for_each body k1 xs in (ys @ zs, k2))"

definition mock_put ::
  "env \<Rightarrow> string \<Rightarrow> rat \<Rightarrow> rat \<Rightarrow> rat \<Rightarrow> int \<Rightarrow> string \<Rightarrow> nat \<Rightarrow> rat \<Rightarrow> StockSuggestion list \<times> nat" where
  "mock_put e smb cap dRoi cp i dateStr k strk =
     (let cleanStrike = of_int (Math_round (strk * 2)) / 2 in
      if cleanStrike * 100 > cap then ([], k)
      else
        let prem = toFixed2 (cleanStrike * (1 / 100 + Math_random e k * (2 / 100)));
            days = i * 7;
            tradeRoi = divide_num prem cleanStrike;
            monthlyRoi = times_num (times_num tradeRoi (30 / of_int days)) 100;
            annualRoi = times_num (times_num tradeRoi (365 / of_int days)) 100;
            capReq = cleanStrike * 100;
            brk = cleanStrike - prem
        in (if ge_num monthlyRoi dRoi then
              [\<lparr>symbol = smb, currentPrice = cp, strikePrice = cleanStrike,
                expirationDate = dateStr, daysToExpiration = days, premium = prem,
                roi = toFixed2_num monthlyRoi, annualizedRoi = toFixed2_num annualRoi,
                capitalRequired = Math_round capReq, breakEven = toFixed2 brk,
                contract = ''Mock-'' @ smb @ ''-'' @ dateStr @ ''-'' @ numberToString e cleanStrike @ ''P'',
                type = PUT\<rparr>]
            else [], Suc k))"

definition mock_call ::
  "env \<Rightarrow> string \<Rightarrow> rat \<Rightarrow> rat \<Rightarrow> rat \<Rightarrow> int \<Rightarrow> string \<Rightarrow> nat \<Rightarrow> rat \<Rightarrow> StockSuggestion list \<times> nat" where
  "mock_call e smb cap dRoi cp i dateStr k strk =
     (let cleanStrike = of_int (Math_round (strk * 2)) / 2 in
      if cp * 100 > cap then ([], k)
      else
        let prem = toFixed2 (cp * (5 / 1000 + Math_random e k * (15 / 1000)));
            days = i * 7;
            tradeRoi = divide_num prem cp;
            monthlyRoi = times_num (times_num tradeRoi (30 / of_int days)) 100;
            annualRoi = times_num (times_num tradeRoi (365 / of_int days)) 100
        in (if ge_num monthlyRoi dRoi then
              [\<lparr>symbol = smb, currentPrice = cp, strikePrice = cleanStrike,
                expirationDate = dateStr, daysToExpiration = days, premium = prem,
                roi = toFixed2_num monthlyRoi, annualizedRoi = toFixed2_num annualRoi,
                capitalRequired = Math_round (cp * 100), breakEven = toFixed2 (cp - prem),
                contract = ''Mock-'' @ smb @ ''-'' @ dateStr @ ''-'' @ numberToString e cleanStrike @ ''C'',
                type = COVERED_CALL\<rparr>]
            else [], Suc k))"

definition mock_week ::
  "env \<Rightarrow> string \<Rightarrow> rat \<Rightarrow> rat \<Rightarrow> rat \<Rightarrow> nat \<Rightarrow> int \<Rightarrow> StockSuggestion list \<times> nat" where
  "mock_week e smb cap dRoi cp k i =
     (let dateStr = toISODate e (addDays (Date_now e) (of_int (i * 7)));
          strikes = [cp * (9 / 10), cp * (95 / 100), cp * 1];
          (ps, k1) = for_each (mock_put e smb cap dRoi cp i dateStr) k strikes;
          callStrikes = [cp * (105 / 100), cp * (110 / 100)];
          (cs, k2) = for_each (mock_call e smb cap dRoi cp i dateStr) k1 callStrikes
      in (ps @ cs, k2))"

text \<open>
  \<^verbatim>\<open>generateMockSuggestions\<close>; the last argument is the number of random draws
  made before the call, and the result carries the number after it. The loop
  \<^verbatim>\<open>for (let i = 1; i <= expirationWeeks; i++)\<close> runs over \<open>1, \<dots>, \<lfloor>expirationWeeks\<rfloor>\<close>.
\<close>

definition generateMockSuggestions ::
  "env \<Rightarrow> string \<Rightarrow> rat \<Rightarrow> rat \<Rightarrow> rat \<Rightarrow> rat option \<Rightarrow> nat \<Rightarrow> StockSuggestion list \<times> nat" where
  "generateMockSuggestions e smb cap dRoi weeks referencePrice k =
     (let cp = (case or_else referencePrice (or_else (stockMap smb) (Some 100)) of
                  Some v \<Rightarrow> v | None \<Rightarrow> 100)
      in for_each (mock_week e smb cap dRoi cp) k [1..\<lfloor>weeks\<rfloor>])"

section \<open>Live screening\<close>

text \<open>
  \<^verbatim>\<open>quote.regularMarketPrice || quote.bid || quote.ask || quote.regularMarketPreviousClose\<close>,
  followed by the test \<^verbatim>\<open>!currentPrice\<close>: the first truthy field, if any.
\<close>

definition quote_price :: "Quote \<Rightarrow> rat option" where
  "quote_price q =
     (let p = or_else (or_else (or_else (regularMarketPrice q) (quote_bid q)) (quote_ask q))
                (regularMarketPreviousClose q)
      in if truthy p then p else None)"

text \<open>\<^verbatim>\<open>(bid && bid > 0) ? bid : lastPrice\<close>.\<close>

definition pick_premium :: "OptionContract \<Rightarrow> rat option" where
  "pick_premium c =
     (case bid c of
        Some b \<Rightarrow> if b \<noteq> 0 \<and> b > 0 then Some b else lastPrice c
      | None \<Rightarrow> lastPrice c)"

definition days_between :: "int \<Rightarrow> int \<Rightarrow> int" where
  "days_between date today = Math_ceil (of_int (date - today) / of_int MS_PER_DAY)"

text \<open>The body of the loop over \<^verbatim>\<open>puts\<close>: what one contract pushes.\<close>

definition screen_put ::
  "env \<Rightarrow> string \<Rightarrow> rat \<Rightarrow> rat \<Rightarrow> rat \<Rightarrow> int \<Rightarrow> int \<Rightarrow> OptionContract \<Rightarrow> StockSuggestion list" where
  "screen_put e smb cap dRoi cp today date c =
     (case pick_premium c of
        None \<Rightarrow> []
      | Some prem \<Rightarrow>
          if prem = 0 \<or> prem \<le> 0 then []
          else if strike c * 100 > cap then []
          else if strike c > cp * (110 / 100) then []
          else
            let days = days_between date today in
            if days \<le> 0 then []
            else
              let tradeRoi = divide_num prem (strike c);
                  annualRoi = times_num (times_num tradeRoi (365 / of_int days)) 100;
                  monthlyRoi = times_num (times_num tradeRoi (30 / of_int days)) 100
              in if ge_num monthlyRoi dRoi then
                   [\<lparr>symbol = smb, currentPrice = cp, strikePrice = strike c,
                     expirationDate = toISODate e date, daysToExpiration = days,
                     premium = prem, roi = toFixed2_num monthlyRoi,
                     annualizedRoi = toFixed2_num annualRoi,
                     capitalRequired = Math_round (strike c * 100),
                     breakEven = toFixed2 (strike c - prem),
                     contract = contractSymbol c, type = PUT\<rparr>]
                 else [])"

text \<open>The body of the loop over \<^verbatim>\<open>calls\<close>.\<close>

definition screen_call ::
  "env \<Rightarrow> string \<Rightarrow> rat \<Rightarrow> rat \<Rightarrow> rat \<Rightarrow> int \<Rightarrow> int \<Rightarrow> OptionContract \<Rightarrow> StockSuggestion list" where
  "screen_call e smb cap dRoi cp today date c =
     (case pick_premium c of
        None \<Rightarrow> []
      | Some prem \<Rightarrow>
          if prem = 0 \<or> prem \<le> 0 then []
          else if cp * 100 > cap then []
          else if strike c < cp then []
          else
            let days = days_between date today in
            if days \<le> 0 then []
            else
              let tradeRoi = divide_num prem cp;
                  monthlyRoi = times_num (times_num tradeRoi (30 / of_int days)) 100;
                  annualRoi = times_num (times_num tradeRoi (365 / of_int days)) 100
              in if ge_num monthlyRoi dRoi then
                   [\<lparr>symbol = smb, currentPrice = cp, strikePrice = strike c,
                     expirationDate = toISODate e date, daysToExpiration = days,
                     premium = prem, roi = toFixed2_num monthlyRoi,
                     annualizedRoi = toFixed2_num annualRoi,
                     capitalRequired = Math_round (cp * 100),
                     breakEven = toFixed2 (cp - prem),
                     contract = contractSymbol c, type = COVERED_CALL\<rparr>]
                 else [])"

definition screen_group ::
  "env \<Rightarrow> string \<Rightarrow> rat \<Rightarrow> rat \<Rightarrow> rat \<Rightarrow> int \<Rightarrow> int \<Rightarrow> OptionGroup \<Rightarrow> StockSuggestion list" where
  "screen_group e smb cap dRoi cp today date g =
     concat (map (screen_put e smb cap dRoi cp today date) (puts g)) @
     concat (map (screen_call e smb cap dRoi cp today date) (calls g))"

text \<open>
  The loop over the relevant dates. A chain fetch that throws ends the loop; what
  was pushed before stays in \<^verbatim>\<open>suggestions\<close>. The result is what was pushed, the
  gateway calls made, and whether the loop ran to its end.
\<close>

fun screen_dates ::
  "env \<Rightarrow> string \<Rightarrow> rat \<Rightarrow> rat \<Rightarrow> rat \<Rightarrow> int \<Rightarrow> int list \<Rightarrow> StockSuggestion list \<times> effect list \<times> bool" where
  "screen_dates e smb cap dRoi cp today [] = ([], [], True)"
| "screen_dates e smb cap dRoi cp today (d # ds) =
     (case yahoo_chain e smb d of
        None \<Rightarrow> ([], [ChainCall smb d], False)
      | Some groups \<Rightarrow>
          let new = concat (map (screen_group e smb cap dRoi cp today d) groups);
              (rest, cs, ok) = screen_dates e smb cap dRoi cp today ds
          in (new @ rest, ChainCall smb d # cs, ok))"

text \<open>
  How the \<^verbatim>\<open>try\<close> block for one symbol ends: it reaches its last statement (the
  cache store), it leaves through \<^verbatim>\<open>continue\<close> because no price was found, or a
  gateway call throws.
\<close>

datatype outcome = Completed | NoPrice | Threw

definition screen_symbol ::
  "env \<Rightarrow> string \<Rightarrow> rat \<Rightarrow> rat \<Rightarrow> int \<Rightarrow> int \<Rightarrow> int \<Rightarrow> StockSuggestion list \<times> effect list \<times> outcome" where
  "screen_symbol e smb cap dRoi today minDate maxDate =
     (case yahoo_quote e smb of
        None \<Rightarrow> ([], [QuoteCall smb], Threw)
      | Some q \<Rightarrow>
          (case quote_price q of
             None \<Rightarrow> ([], [QuoteCall smb], NoPrice)
           | Some cp \<Rightarrow>
               (case yahoo_options e smb of
                  None \<Rightarrow> ([], [QuoteCall smb, OptionsCall smb], Threw)
                | Some expirationDates \<Rightarrow>
                    let relevantDates = filter (\<lambda>d. minDate \<le> d \<and> d \<le> maxDate) expirationDates;
                        (new, cs, ok) = screen_dates e smb cap dRoi cp today relevantDates
                    in (new, QuoteCall smb # OptionsCall smb # cs,
                        if ok then Completed else Threw))))"

section \<open>The request handler\<close>

text \<open>
  The state of the loop over the symbols: the \<^verbatim>\<open>suggestions\<close> variable, the
  process-wide cache, the number of random draws made, and the calls made so far.
\<close>

record handler_state =
  acc :: "StockSuggestion list"
  wheelCache :: wheel_cache
  draws :: nat
  effects :: "effect list"

text \<open>\<^verbatim>\<open>cached && (Date.now() - cached.ts) < CACHE_TTL_MS\<close>.\<close>

definition cache_hit :: "env \<Rightarrow> wheel_cache \<Rightarrow> cache_key \<Rightarrow> CacheEntry option" where
  "cache_hit e c key =
     (case c key of
        None \<Rightarrow> None
      | Some ent \<Rightarrow> if Date_now e - ts ent < CACHE_TTL_MS then Some ent else None)"

text \<open>
  The inner \<^verbatim>\<open>try\<close> of the \<^verbatim>\<open>catch (err)\<close> block: the chart of the last seven
  days, and the close of its last quote as the last known price. The result is
  that price (if any) and the call made.
\<close>

definition recover_history :: "env \<Rightarrow> string \<Rightarrow> rat option \<times> effect" where
  "recover_history e smb =
     (let period1 = toISODate e (Date_now e - 7 * 24 * 60 * 60 * 1000);
          period2 = toISODate e (Date_now e);
          lastKnownPrice =
            (case yahoo_chart e smb period1 period2 of
               None \<Rightarrow> None
             | Some quotes \<Rightarrow> if length quotes > 0 then last quotes else None)
      in (lastKnownPrice, ChartCall smb period1 period2))"

text \<open>The \<^verbatim>\<open>catch (err)\<close> block of one symbol.\<close>

definition mock_fallback ::
  "env \<Rightarrow> rat \<Rightarrow> rat \<Rightarrow> rat \<Rightarrow> handler_state \<Rightarrow> string \<Rightarrow> handler_state" where
  "mock_fallback e cap dRoi weeks st smb =
     (let (lastKnownPrice, chartCall) = recover_history e smb;
          st1 = st\<lparr>effects := effects st @ [chartCall]\<rparr>
      in if DISABLE_MOCK_FALLBACK e then st1
         else
           let (mock, k) = generateMockSuggestions e smb cap dRoi weeks lastKnownPrice (draws st1)
           in st1\<lparr>acc := acc st1 @ mock, draws := k,
                  effects := effects st1 @ [MockCall smb lastKnownPrice]\<rparr>)"

text \<open>The body of \<^verbatim>\<open>for (const symbol of symbols)\<close> on the live path.\<close>

definition process_symbol ::
  "env \<Rightarrow> rat \<Rightarrow> rat \<Rightarrow> rat \<Rightarrow> int \<Rightarrow> int \<Rightarrow> int \<Rightarrow> handler_state \<Rightarrow> string \<Rightarrow> handler_state" where
  "process_symbol e cap dRoi weeks today minDate maxDate st smb =
     (let cacheKey = (smb, cap, dRoi, weeks) in
      case cache_hit e (wheelCache st) cacheKey of
        Some ent \<Rightarrow> st\<lparr>acc := acc st @ cached ent\<rparr>
      | None \<Rightarrow>
          let (new, cs, out) = screen_symbol e smb cap dRoi today minDate maxDate;
              st1 = st\<lparr>acc := acc st @ new, effects := effects st @ cs\<rparr>
          in (case out of
                Completed \<Rightarrow>
                  let perSymbol = filter (\<lambda>s. symbol s = smb) (acc st1)
                  in st1\<lparr>wheelCache := (wheelCache st1)
                           (cacheKey \<mapsto> \<lparr>ts = Date_now e, cached = perSymbol\<rparr>)\<rparr>
              | NoPrice \<Rightarrow> st1
              | Threw \<Rightarrow> mock_fallback e cap dRoi weeks st1 smb))"

text \<open>The body of the loop of the mock-only path.\<close>

definition mock_symbol ::
  "env \<Rightarrow> rat \<Rightarrow> rat \<Rightarrow> rat \<Rightarrow> handler_state \<Rightarrow> string \<Rightarrow> handler_state" where
  "mock_symbol e cap dRoi weeks st smb =
     (let (mock, k) = generateMockSuggestions e smb cap dRoi weeks None (draws st)
      in st\<lparr>acc := acc st @ mock, draws := k, effects := effects st @ [MockCall smb None]\<rparr>)"

text \<open>
  \<^verbatim>\<open>suggestions.sort((a, b) => b.roi - a.roi)\<close>. \<^verbatim>\<open>Array.prototype.sort\<close> is
  stable; with a comparator that orders the elements consistently its result is
  the one of a stable insertion sort, which is the model. A comparator result that
  is not positive (zero, negative or NaN) leaves the earlier element first.
\<close>

definition by_roi_desc :: "StockSuggestion \<Rightarrow> StockSuggestion \<Rightarrow> number" where
  "by_roi_desc a b = minus_num (roi b) (roi a)"

fun insert_sorted :: "('a \<Rightarrow> 'a \<Rightarrow> number) \<Rightarrow> 'a \<Rightarrow> 'a list \<Rightarrow> 'a list" where
  "insert_sorted cmp x [] = [x]"
| "insert_sorted cmp x (y # ys) =
     (if positive_num (cmp x y) then y # insert_sorted cmp x ys else x # y # ys)"

definition sort_with :: "('a \<Rightarrow> 'a \<Rightarrow> number) \<Rightarrow> 'a list \<Rightarrow> 'a list" where
  "sort_with cmp xs = foldr (insert_sorted cmp) xs []"

definition forceMock :: bool where
  "forceMock = False"

text \<open>The last statements of the handler: sort, classify, respond.\<close>

definition assemble :: "StockSuggestion list \<Rightarrow> SuggestionResponse" where
  "assemble xs =
     (let sorted = sort_with by_roi_desc xs
      in \<lparr>suggestions = sorted,
          source = (if forceMock then Mock
                    else if list_ex (\<lambda>s. prefix ''Mock'' (contract s)) sorted then Mock
                    else Live),
          debug = (if forceMock then Some ''Forced Mock'' else None)\<rparr>)"

text \<open>
  The parsed JSON body, each numeric field after the coercion of
  \<^verbatim>\<open>clampNumber\<close>; \<open>whitelist\<close> is \<open>None\<close> when the field is not a string.
\<close>

record RequestBody =
  capital :: number
  desiredRoi :: number
  expirationWeeks :: number
  whitelist :: "string option"

text \<open>The loop over the symbols, from the empty \<^verbatim>\<open>suggestions\<close>.\<close>

definition run_symbols ::
  "env \<Rightarrow> wheel_cache \<Rightarrow> rat \<Rightarrow> rat \<Rightarrow> rat \<Rightarrow> string list \<Rightarrow> handler_state" where
  "run_symbols e c cap dRoi weeks symbols =
     (let st0 = \<lparr>acc = [], wheelCache = c, draws = 0, effects = []\<rparr> in
      if \<not> forceMock then
        let expDays = weeks * 7;
            today = Date_now e;
            minDate = addDays today (max 0 (expDays - 10));
            maxDate = addDays today (expDays + 10)
        in foldl (process_symbol e cap dRoi weeks today minDate maxDate) st0 symbols
      else foldl (mock_symbol e cap dRoi weeks) st0 symbols)"

text \<open>
  \<^verbatim>\<open>POST\<close>. The request is \<open>None\<close> when \<^verbatim>\<open>request.json()\<close> throws, which the outer
  \<^verbatim>\<open>catch\<close> turns into status 500. The result is the response, the cache after the
  request, and the gateway and generator calls the request made.
\<close>

definition POST ::
  "env \<Rightarrow> wheel_cache \<Rightarrow> RequestBody option \<Rightarrow> http_response \<times> wheel_cache \<times> effect list" where
  "POST e c request =
     (case request of
        None \<Rightarrow> (Json500 ''Internal Server Error'', c, [])
      | Some body \<Rightarrow>
          (case (clampNumber (capital body) 500 5000000,
                 clampNumber (desiredRoi body) 0 50,
                 clampNumber (expirationWeeks body) 1 12) of
             (Some cap, Some dRoi, Some weeks) \<Rightarrow>
               let symbols = parseSymbols (whitelist body) in
               if length symbols = 0 then
                 (Json400 ''Invalid input''
                    ''Please provide at least one ticker in the watchlist.'', c, [])
               else if length symbols > 20 then
                 (Json400 ''Too many tickers''
                    ''Please limit the watchlist to 20 tickers per request.'', c, [])
               else
                 let st = run_symbols e c cap dRoi weeks symbols
                 in (Json200 (assemble (acc st)), wheelCache st, effects st)
           | _ \<Rightarrow>
               (Json400 ''Invalid input''
                  ''capital, desiredRoi, and expirationWeeks must be numbers within allowed ranges.'',
                c, [])))"

section \<open>Example environments\<close>

text \<open>
  The examples are evaluated at noon UTC of 2026-11-01. The date renderer of the
  examples knows the instants they use.
\<close>

definition example_now :: int where
  "example_now = 1793534400000"

definition example_toISODate :: "int \<Rightarrow> string" where
  "example_toISODate t =
     (if t = 1792929600000 then ''2026-10-25''
      else if t = 1793534400000 then ''2026-11-01''
      else if t = 1794139200000 then ''2026-11-08''
      else if t = 1794744000000 then ''2026-11-15''
      else if t = 1795348800000 then ''2026-11-22''
      else if t = 1795953600000 then ''2026-11-29''
      else ''2026-12-31'')"

definition example_numberToString :: "rat \<Rightarrow> string" where
  "example_numberToString x =
     (if x = 1 then ''1'' else if x = 90 then ''90'' else if x = 95 then ''95''
      else if x = 100 then ''100'' else if x = 105 then ''105'' else if x = 110 then ''110''
      else ''0'')"

text \<open>Every gateway call throws; \<^verbatim>\<open>Math.random()\<close> returns one half.\<close>

definition gateway_down :: env where
  "gateway_down =
     \<lparr>yahoo_quote = (\<lambda>_. None), yahoo_options = (\<lambda>_. None), yahoo_chain = (\<lambda>_ _. None),
      yahoo_chart = (\<lambda>_ _ _. None), Date_now = example_now, Math_random = (\<lambda>_. 1 / 2),
      toISODate = example_toISODate, numberToString = example_numberToString,
      DISABLE_MOCK_FALLBACK = False\<rparr>"

text \<open>
  A gateway that serves \<open>ABC\<close> (price 100, one expiry a week ahead with two puts
  and two calls), has no price field for \<open>NOP\<close>, and throws for every other symbol;
  the chart history knows \<open>XYZ\<close> only, with last close 1.10.
\<close>

definition example_chain :: "OptionGroup list" where
  "example_chain =
     [\<lparr>puts = [\<lparr>strike = 95, bid = Some 2, lastPrice = Some (19 / 10),
                contractSymbol = ''ABC261108P00095000''\<rparr>,
               \<lparr>strike = 90, bid = Some 0, lastPrice = Some (1 / 10),
                contractSymbol = ''ABC261108P00090000''\<rparr>],
       calls = [\<lparr>strike = 105, bid = Some (3 / 2), lastPrice = None,
                 contractSymbol = ''ABC261108C00105000''\<rparr>,
                \<lparr>strike = 95, bid = Some 6, lastPrice = Some 6,
                 contractSymbol = ''ABC261108C00095000''\<rparr>]\<rparr>]"

definition example_gateway :: env where
  "example_gateway =
     \<lparr>yahoo_quote = (\<lambda>s.
        if s = ''ABC'' then
          Some \<lparr>regularMarketPrice = Some 100, quote_bid = None, quote_ask = None,
                regularMarketPreviousClose = Some 99\<rparr>
        else if s = ''NOP'' then
          Some \<lparr>regularMarketPrice = None, quote_bid = Some 0, quote_ask = None,
                regularMarketPreviousClose = None\<rparr>
        else None),
      yahoo_options = (\<lambda>s. if s = ''ABC'' then Some [1794139200000, 1796126400000] else None),
      yahoo_chain = (\<lambda>s d. if s = ''ABC'' then Some example_chain else None),
      yahoo_chart = (\<lambda>s p1 p2. if s = ''XYZ'' then Some [Some 1, Some (11 / 10)] else None),
      Date_now = example_now, Math_random = (\<lambda>_. 1 / 2),
      toISODate = example_toISODate, numberToString = example_numberToString,
      DISABLE_MOCK_FALLBACK = False\<rparr>"

text \<open>
  A request for the three symbols: \<open>ABC\<close> is screened live, \<open>XYZ\<close> falls back to the
  generator, \<open>NOP\<close> is skipped.
\<close>

definition example_request :: RequestBody where
  "example_request =
     \<lparr>capital = Finite 10000, desiredRoi = Finite 1, expirationWeeks = Finite 1,
      whitelist = Some ''abc, xyz, nop''\<rparr>"

definition nop_request :: RequestBody where
  "nop_request =
     \<lparr>capital = Finite 10000, desiredRoi = Finite 1, expirationWeeks = Finite 4,
      whitelist = Some ''NOP''\<rparr>"

definition xyz_request :: RequestBody where
  "xyz_request =
     \<lparr>capital = Finite 10000, desiredRoi = Finite 1, expirationWeeks = Finite 1,
      whitelist = Some ''XYZ''\<rparr>"

definition abc_request :: RequestBody where
  "abc_request =
     \<lparr>capital = Finite 10000, desiredRoi = Finite 1, expirationWeeks = Finite 1,
      whitelist = Some ''ABC''\<rparr>"

definition pltr_request :: RequestBody where
  "pltr_request =
     \<lparr>capital = Finite 10000, desiredRoi = Finite 1, expirationWeeks = Finite 4,
      whitelist = Some ''PLTR''\<rparr>"

text \<open>The quote and option calls throw, the chart history ends with a close of 100.\<close>

definition history_only :: env where
  "history_only = gateway_down\<lparr>yahoo_chart := (\<lambda>s p1 p2. Some [Some 98, Some 100])\<rparr>"

text \<open>Five minutes after the examples' instant, with every gateway call throwing.\<close>

definition gateway_down_later :: env where
  "gateway_down_later = gateway_down\<lparr>Date_now := example_now + 5 * 60 * 1000\<rparr>"

text \<open>The gateway of the examples, exactly ten minutes after their instant.\<close>

definition example_gateway_expired :: env where
  "example_gateway_expired = example_gateway\<lparr>Date_now := example_now + 10 * 60 * 1000\<rparr>"

text \<open>The \<^verbatim>\<open>suggestions\<close> array of a response, empty for an error body.\<close>

definition suggestions_of :: "http_response \<Rightarrow> StockSuggestion list" where
  "suggestions_of r = (case r of Json200 body \<Rightarrow> suggestions body | _ \<Rightarrow> [])"

section \<open>Notions used in the statements\<close>

text \<open>\<^verbatim>\<open>Number.isFinite(n)\<close>.\<close>

definition finite_num :: "number \<Rightarrow> bool" where
  "finite_num n = (case n of Finite x \<Rightarrow> True | _ \<Rightarrow> False)"

text \<open>
  A property of cached suggestions that may depend on the numeric part of the
  cache key: it holds of a cache when every entry's suggestions have it.
\<close>

definition cache_all :: "(rat \<Rightarrow> rat \<Rightarrow> rat \<Rightarrow> StockSuggestion \<Rightarrow> bool) \<Rightarrow> wheel_cache \<Rightarrow> bool" where
  "cache_all Q c =
     (\<forall>smb cap dRoi weeks ent. c (smb, cap, dRoi, weeks) = Some ent \<longrightarrow>
        list_all (Q cap dRoi weeks) (cached ent))"

text \<open>The suggestions that one of the four \<^verbatim>\<open>push\<close> statements can produce.\<close>

definition emitted :: "env \<Rightarrow> rat \<Rightarrow> rat \<Rightarrow> StockSuggestion \<Rightarrow> bool" where
  "emitted e cap dRoi s =
     ((\<exists>smb cp today date c. s \<in> set (screen_put e smb cap dRoi cp today date c)) \<or>
      (\<exists>smb cp today date c. s \<in> set (screen_call e smb cap dRoi cp today date c)) \<or>
      (\<exists>smb cp i dateStr k strk. s \<in> set (fst (mock_put e smb cap dRoi cp i dateStr k strk))) \<or>
      (\<exists>smb cp i dateStr k strk. s \<in> set (fst (mock_call e smb cap dRoi cp i dateStr k strk))))"

text \<open>
  Three properties of a suggestion, each with the numeric part of the cache key
  as parameters: the return passes the gate up to the rounding tolerance; the
  break-even follows from the other fields; the return is not NaN.
\<close>

definition roi_gate :: "rat \<Rightarrow> rat \<Rightarrow> rat \<Rightarrow> StockSuggestion \<Rightarrow> bool" where
  "roi_gate cap dRoi weeks s = ge_num (roi s) (dRoi - 1 / 100)"

definition break_even_rule :: "rat \<Rightarrow> rat \<Rightarrow> rat \<Rightarrow> StockSuggestion \<Rightarrow> bool" where
  "break_even_rule cap dRoi weeks s =
     (case type s of
        PUT \<Rightarrow> breakEven s = toFixed2 (strikePrice s - premium s)
      | COVERED_CALL \<Rightarrow> breakEven s = toFixed2 (currentPrice s - premium s)
      | CALL \<Rightarrow> True)"

text \<open>\<^verbatim>\<open>a >= b\<close> on two numbers.\<close>

fun geq_num :: "number \<Rightarrow> number \<Rightarrow> bool" where
  "geq_num NaN b = False"
| "geq_num a NaN = False"
| "geq_num PosInfinity b = True"
| "geq_num a NegInfinity = True"
| "geq_num (Finite a) (Finite b) = (b \<le> a)"
| "geq_num a b = False"

definition roi_defined :: "rat \<Rightarrow> rat \<Rightarrow> rat \<Rightarrow> StockSuggestion \<Rightarrow> bool" where
  "roi_defined cap dRoi weeks s = (roi s \<noteq> NaN)"

text \<open>
  A suggestion of the generator: the contract identifier carries the marker, and
  the lot of a put costs at most the capital.
\<close>

definition synthetic :: "rat \<Rightarrow> StockSuggestion \<Rightarrow> bool" where
  "synthetic cap s =
     (prefix ''Mock'' (contract s) \<and> (type s = PUT \<longrightarrow> strikePrice s * 100 \<le> cap))"

text \<open>
  The \<^verbatim>\<open>try\<close> block of one symbol with the date window of the request: what it
  pushes, the gateway calls it makes, and how it ends.
\<close>

definition live_attempt :: "env \<Rightarrow> rat \<Rightarrow> rat \<Rightarrow> rat \<Rightarrow> string \<Rightarrow> StockSuggestion list \<times> effect list \<times> outcome" where
  "live_attempt e cap dRoi weeks smb =
     screen_symbol e smb cap dRoi (Date_now e)
       (addDays (Date_now e) (max 0 (weeks * 7 - 10))) (addDays (Date_now e) (weeks * 7 + 10))"

text \<open>The calls of the \<^verbatim>\<open>catch (err)\<close> block.\<close>

definition fallback_calls :: "env \<Rightarrow> string \<Rightarrow> effect list" where
  "fallback_calls e smb =
     snd (recover_history e smb) #
     (if DISABLE_MOCK_FALLBACK e then [] else [MockCall smb (fst (recover_history e smb))])"

text \<open>The calls the handler makes for a symbol that is the only one, on an empty cache.\<close>

definition symbol_calls :: "env \<Rightarrow> rat \<Rightarrow> rat \<Rightarrow> rat \<Rightarrow> string \<Rightarrow> effect list" where
  "symbol_calls e cap dRoi weeks smb = effects (run_symbols e Map.empty cap dRoi weeks [smb])"

text \<open>The loop body with the window of the request, as \<open>run_symbols\<close> calls it.\<close>

abbreviation (input) window_process where
  "window_process e cap dRoi weeks \<equiv>
     process_symbol e cap dRoi weeks (Date_now e)
       (addDays (Date_now e) (max 0 (weeks * 7 - 10))) (addDays (Date_now e) (weeks * 7 + 10))"

text \<open>
  Two states of the loop that agree on everything except cache entries that have
  expired.
\<close>

definition same_view :: "env \<Rightarrow> handler_state \<Rightarrow> handler_state \<Rightarrow> bool" where
  "same_view e st st' =
     (acc st = acc st' \<and> draws st = draws st' \<and> effects st = effects st' \<and>
      (\<forall>k. cache_hit e (wheelCache st) k = cache_hit e (wheelCache st') k))"

section \<open>Validation\<close>

lemma remdups_snoc: "remdups (zs @ [x]) = filter (\<lambda>y. y \<noteq> x) (remdups zs) @ [x]"
  by (induction zs) auto

lemma set_add_all_first_occurrences:
  "set_add_all seen xs = seen @ rev (remdups (rev (filter (\<lambda>x. x \<notin> set seen) xs)))"
proof (induction xs arbitrary: seen)
  case Nil
  then show ?case by simp
next
  case (Cons x xs)
  show ?case
  proof (cases "x \<in> set seen")
    case True
    then show ?thesis using Cons.IH[of seen] by simp
  next
    case False
    have "filter (\<lambda>y. y \<notin> set (seen @ [x])) xs =
          filter (\<lambda>y. y \<noteq> x) (filter (\<lambda>y. y \<notin> set seen) xs)"
      by (induction xs) auto
    then show ?thesis using False Cons.IH[of "seen @ [x]"]
      by (simp add: remdups_snoc remdups_filter rev_filter)
  qed
qed

lemma distinct_set_add_all: "distinct seen \<Longrightarrow> distinct (set_add_all seen xs)"
  by (induction xs arbitrary: seen) auto

lemma distinct_parseSymbols: "distinct (parseSymbols w)"
  by (simp add: parseSymbols_def Let_def distinct_set_add_all)

lemma POST_400_iff:
  "(\<exists>err det. fst (POST e c (Some body)) = Json400 err det) \<longleftrightarrow>
     (\<not> finite_num (capital body) \<or> \<not> finite_num (desiredRoi body) \<or>
      \<not> finite_num (expirationWeeks body) \<or>
      parseSymbols (whitelist body) = [] \<or> 20 < length (parseSymbols (whitelist body)))"
  by (cases "capital body"; cases "desiredRoi body"; cases "expirationWeeks body")
     (simp_all add: POST_def clampNumber_def finite_num_def Let_def)

lemma POST_400_quiet:
  "fst (POST e c request) = Json400 err det \<Longrightarrow> snd (POST e c request) = (c, [])"
  by (auto simp: POST_def Let_def split: option.splits if_splits prod.splits)

lemma POST_200:
  assumes "capital body = Finite x" "desiredRoi body = Finite y" "expirationWeeks body = Finite z"
    and "parseSymbols (whitelist body) \<noteq> []" "length (parseSymbols (whitelist body)) \<le> 20"
  shows "POST e c (Some body) =
     (let st = run_symbols e c (min 5000000 (max 500 x)) (min 50 (max 0 y)) (min 12 (max 1 z))
                 (parseSymbols (whitelist body))
      in (Json200 (assemble (acc st)), wheelCache st, effects st))"
  using assms by (simp add: POST_def clampNumber_def Let_def)

lemma parse_example: "parseSymbols (Some '' pltr, sofi,,PLTR '') = [''PLTR'', ''SOFI'']"
  by code_simp

lemma parse_PLTR: "parseSymbols (Some ''PLTR'') = [''PLTR'']"
  by code_simp

text \<open>
  Claim C10. A request is answered with status 400 exactly when a numeric field
  is not finite, or the parsed symbol list is empty or longer than 20. Otherwise
  the handler runs with each numeric field clamped into its bound (capital into
  [500, 5000000], desiredRoi into [0, 50], expirationWeeks into [1, 12]). The
  symbol list is the list of trimmed, upper-cased, non-empty pieces with every
  repetition after the first occurrence removed.
\<close>

theorem validation_clamps_and_rejects:
  "((\<exists>err det. fst (POST e c (Some body)) = Json400 err det) \<longleftrightarrow>
      (\<not> finite_num (capital body) \<or> \<not> finite_num (desiredRoi body) \<or>
       \<not> finite_num (expirationWeeks body) \<or>
       parseSymbols (whitelist body) = [] \<or> 20 < length (parseSymbols (whitelist body)))) \<and>
   (capital body = Finite x \<longrightarrow> desiredRoi body = Finite y \<longrightarrow> expirationWeeks body = Finite z \<longrightarrow>
    parseSymbols (whitelist body) \<noteq> [] \<longrightarrow> length (parseSymbols (whitelist body)) \<le> 20 \<longrightarrow>
      POST e c (Some body) =
        (let st = run_symbols e c (min 5000000 (max 500 x)) (min 50 (max 0 y)) (min 12 (max 1 z))
                    (parseSymbols (whitelist body))
         in (Json200 (assemble (acc st)), wheelCache st, effects st)) \<and>
      500 \<le> min 5000000 (max 500 x) \<and> min 5000000 (max 500 x) \<le> 5000000 \<and>
      0 \<le> min 50 (max 0 y) \<and> min 50 (max 0 y) \<le> 50 \<and>
      1 \<le> min 12 (max 1 z) \<and> min 12 (max 1 z) \<le> 12) \<and>
   parseSymbols (whitelist body) =
     rev (remdups (rev (filter (\<lambda>s. length s > 0)
       (map (\<lambda>s. toUpperCase (trim s))
          (split_on CHR '','' (case whitelist body of Some s \<Rightarrow> s | None \<Rightarrow> []))))))"
proof -
  have "parseSymbols (whitelist body) =
     rev (remdups (rev (filter (\<lambda>s. length s > 0)
       (map (\<lambda>s. toUpperCase (trim s))
          (split_on CHR '','' (case whitelist body of Some s \<Rightarrow> s | None \<Rightarrow> []))))))"
    by (simp add: parseSymbols_def Let_def set_add_all_first_occurrences)
  then show ?thesis
    using POST_400_iff[of e c body] POST_200[of body x y z e c] by simp
qed

theorem validation_clamps_and_rejects_witness:
  "fst (POST gateway_down Map.empty
          (Some \<lparr>capital = Finite 100, desiredRoi = Finite 80, expirationWeeks = Finite (1 / 2),
                 whitelist = Some '' pltr, sofi,,PLTR ''\<rparr>)) =
   Json200 (assemble (acc (run_symbols gateway_down Map.empty 500 50 1 [''PLTR'', ''SOFI''])))"
  using validation_clamps_and_rejects
    [of gateway_down Map.empty
        "\<lparr>capital = Finite 100, desiredRoi = Finite 80, expirationWeeks = Finite (1 / 2),
          whitelist = Some '' pltr, sofi,,PLTR ''\<rparr>" 100 80 "1 / 2"]
  by (simp add: parse_example Let_def)

text \<open>
  Claim C2, as stated, fails: with capital 100 the handler answers with status
  200, after it has called the gateway and the generator.
\<close>

theorem capital_100_not_rejected:
  "fst (POST gateway_down Map.empty
     (Some \<lparr>capital = Finite 100, desiredRoi = Finite 1, expirationWeeks = Finite 4,
            whitelist = Some ''PLTR''\<rparr>)) =
     Json200 \<lparr>suggestions = [], source = Live, debug = None\<rparr> \<and>
   snd (snd (POST gateway_down Map.empty
     (Some \<lparr>capital = Finite 100, desiredRoi = Finite 1, expirationWeeks = Finite 4,
            whitelist = Some ''PLTR''\<rparr>))) =
     [QuoteCall ''PLTR'', ChartCall ''PLTR'' ''2026-10-25'' ''2026-11-01'', MockCall ''PLTR'' None]"
  by code_simp

text \<open>
  Claim C2, amended. A finite capital below 500 is clamped: the request is
  handled exactly as the same request with capital 500. Status 400 is the answer
  to a non-finite capital; and a request answered with status 400 has made no
  gateway or generator call and has left the cache as it was.
\<close>

theorem low_capital_is_clamped:
  "(capital body = Finite x \<longrightarrow> x < 500 \<longrightarrow>
      POST e c (Some body) = POST e c (Some (body\<lparr>capital := Finite 500\<rparr>))) \<and>
   (\<not> finite_num (capital body) \<longrightarrow>
      POST e c (Some body) =
        (Json400 ''Invalid input''
           ''capital, desiredRoi, and expirationWeeks must be numbers within allowed ranges.'',
         c, [])) \<and>
   (\<forall>err det. fst (POST e c request) = Json400 err det \<longrightarrow> snd (POST e c request) = (c, []))"
proof -
  have a: "capital body = Finite x \<longrightarrow> x < 500 \<longrightarrow>
      POST e c (Some body) = POST e c (Some (body\<lparr>capital := Finite 500\<rparr>))"
    by (cases "desiredRoi body"; cases "expirationWeeks body")
       (simp_all add: POST_def clampNumber_def)
  have b: "\<not> finite_num (capital body) \<longrightarrow>
      POST e c (Some body) =
        (Json400 ''Invalid input''
           ''capital, desiredRoi, and expirationWeeks must be numbers within allowed ranges.'',
         c, [])"
    by (cases "capital body")
       (simp_all add: POST_def clampNumber_def finite_num_def split: option.splits)
  show ?thesis using a b POST_400_quiet by blast
qed

theorem low_capital_is_clamped_witness:
  "POST gateway_down Map.empty
     (Some \<lparr>capital = Finite 100, desiredRoi = Finite 1, expirationWeeks = Finite 4,
            whitelist = Some ''PLTR''\<rparr>) =
   POST gateway_down Map.empty
     (Some \<lparr>capital = Finite 500, desiredRoi = Finite 1, expirationWeeks = Finite 4,
            whitelist = Some ''PLTR''\<rparr>) \<and>
   POST gateway_down Map.empty
     (Some \<lparr>capital = NaN, desiredRoi = Finite 1, expirationWeeks = Finite 4,
            whitelist = Some ''PLTR''\<rparr>) =
     (Json400 ''Invalid input''
        ''capital, desiredRoi, and expirationWeeks must be numbers within allowed ranges.'',
      Map.empty, [])"
  using low_capital_is_clamped
    [of "\<lparr>capital = Finite 100, desiredRoi = Finite 1, expirationWeeks = Finite 4,
          whitelist = Some ''PLTR''\<rparr>" 100 gateway_down Map.empty]
    low_capital_is_clamped
    [of "\<lparr>capital = NaN, desiredRoi = Finite 1, expirationWeeks = Finite 4,
          whitelist = Some ''PLTR''\<rparr>" 0 gateway_down Map.empty]
  by (simp add: finite_num_def)

section \<open>What every collected suggestion satisfies\<close>

lemma cache_all_empty: "cache_all Q Map.empty"
  by (simp add: cache_all_def)

lemma for_each_set:
  assumes "\<And>k x s. s \<in> set (fst (body k x)) \<Longrightarrow> P s"
  shows "s \<in> set (fst (for_each body k xs)) \<Longrightarrow> P s"
proof (induction xs arbitrary: k)
  case Nil
  then show ?case by simp
next
  case (Cons x xs)
  then show ?case using assms
    by (auto simp: Let_def split: prod.splits) (metis fst_conv)+
qed

lemma mock_week_emitted:
  "s \<in> set (fst (mock_week e smb cap dRoi cp k i)) \<Longrightarrow> emitted e cap dRoi s"
proof -
  assume a: "s \<in> set (fst (mock_week e smb cap dRoi cp k i))"
  have p: "\<And>d k xs. s \<in> set (fst (for_each (mock_put e smb cap dRoi cp i d) k xs)) \<Longrightarrow>
             emitted e cap dRoi s"
    by (rule for_each_set[where P="emitted e cap dRoi"]) (auto simp: emitted_def)
  have q: "\<And>d k xs. s \<in> set (fst (for_each (mock_call e smb cap dRoi cp i d) k xs)) \<Longrightarrow>
             emitted e cap dRoi s"
    by (rule for_each_set[where P="emitted e cap dRoi"]) (auto simp: emitted_def)
  from a show ?thesis
    unfolding mock_week_def Let_def
    by (auto split: prod.splits dest: p q simp del: for_each.simps) (metis fst_conv p q)+
qed

lemma generateMock_emitted:
  "s \<in> set (fst (generateMockSuggestions e smb cap dRoi weeks ref k)) \<Longrightarrow> emitted e cap dRoi s"
  unfolding generateMockSuggestions_def Let_def
  by (rule for_each_set[where P="emitted e cap dRoi"]) (auto dest: mock_week_emitted)

lemma generateMock_emitted_eq:
  "generateMockSuggestions e smb cap dRoi weeks ref k = (xs, k') \<Longrightarrow> s \<in> set xs \<Longrightarrow>
   emitted e cap dRoi s"
  using generateMock_emitted[of s e smb cap dRoi weeks ref k] by simp

lemma screen_group_emitted:
  "s \<in> set (screen_group e smb cap dRoi cp today d g) \<Longrightarrow> emitted e cap dRoi s"
  by (auto simp: screen_group_def emitted_def)

lemma screen_dates_emitted:
  "s \<in> set (fst (screen_dates e smb cap dRoi cp today ds)) \<Longrightarrow> emitted e cap dRoi s"
  by (induction ds) (auto split: option.splits prod.splits dest: screen_group_emitted)

lemma screen_symbol_emitted:
  "s \<in> set (fst (screen_symbol e smb cap dRoi today mn mx)) \<Longrightarrow> emitted e cap dRoi s"
  unfolding screen_symbol_def Let_def
  by (auto split: option.splits prod.splits) (metis fst_conv screen_dates_emitted)

lemma screen_symbol_emitted_eq:
  "screen_symbol e smb cap dRoi today mn mx = (xs, cs, out) \<Longrightarrow> s \<in> set xs \<Longrightarrow>
   emitted e cap dRoi s"
  using screen_symbol_emitted[of s e smb cap dRoi today mn mx] by simp

lemma cache_hit_SomeD:
  "cache_hit e c key = Some ent \<Longrightarrow> c key = Some ent \<and> Date_now e - ts ent < CACHE_TTL_MS"
  by (auto simp: cache_hit_def split: option.splits if_splits)

lemma mock_fallback_all:
  assumes em: "\<And>s. emitted e cap dRoi s \<Longrightarrow> Q cap dRoi weeks s"
    and "list_all (Q cap dRoi weeks) (acc st)"
  shows "list_all (Q cap dRoi weeks) (acc (mock_fallback e cap dRoi weeks st smb))"
  using assms
  by (auto simp: mock_fallback_def Let_def list_all_iff split: prod.splits
           dest: generateMock_emitted_eq)

lemma mock_fallback_cache [simp]:
  "wheelCache (mock_fallback e cap dRoi weeks st smb) = wheelCache st"
  by (auto simp: mock_fallback_def Let_def split: prod.splits)

lemma cache_all_update:
  "cache_all Q c \<Longrightarrow> list_all (Q cap dRoi weeks) xs \<Longrightarrow>
   cache_all Q (c((smb, cap, dRoi, weeks) \<mapsto> \<lparr>ts = t, cached = xs\<rparr>))"
  by (auto simp: cache_all_def)

lemma process_symbol_all:
  assumes em: "\<And>s. emitted e cap dRoi s \<Longrightarrow> Q cap dRoi weeks s"
    and a: "list_all (Q cap dRoi weeks) (acc st)" and c: "cache_all Q (wheelCache st)"
  shows "list_all (Q cap dRoi weeks) (acc (process_symbol e cap dRoi weeks today mn mx st smb)) \<and>
         cache_all Q (wheelCache (process_symbol e cap dRoi weeks today mn mx st smb))"
proof (cases "cache_hit e (wheelCache st) (smb, cap, dRoi, weeks)")
  case (Some ent)
  then have "list_all (Q cap dRoi weeks) (cached ent)"
    using c by (auto simp: cache_all_def dest!: cache_hit_SomeD)
  then show ?thesis using Some a c by (simp add: process_symbol_def)
next
  case None
  obtain new cs out where scr: "screen_symbol e smb cap dRoi today mn mx = (new, cs, out)"
    by (cases "screen_symbol e smb cap dRoi today mn mx") auto
  have new: "list_all (Q cap dRoi weeks) new"
    using screen_symbol_emitted_eq[OF scr] em by (auto simp: list_all_iff)
  define st1 where "st1 = st\<lparr>acc := acc st @ new, effects := effects st @ cs\<rparr>"
  have a1: "list_all (Q cap dRoi weeks) (acc st1)" using a new by (simp add: st1_def)
  have c1: "cache_all Q (wheelCache st1)" using c by (simp add: st1_def)
  show ?thesis
  proof (cases out)
    case Completed
    have "list_all (Q cap dRoi weeks) (filter (\<lambda>s. symbol s = smb) (acc st1))"
      using a1 by (auto simp: list_all_iff)
    then show ?thesis using None scr Completed a1 c1 cache_all_update[OF c1]
      by (simp add: process_symbol_def Let_def st1_def)
  next
    case NoPrice
    then show ?thesis using None scr a1 c1 by (simp add: process_symbol_def Let_def st1_def)
  next
    case Threw
    then show ?thesis
      using None scr c1 mock_fallback_all[where Q=Q and weeks=weeks, OF em a1]
      by (simp add: process_symbol_def Let_def st1_def)
  qed
qed

lemma foldl_process_all:
  assumes em: "\<And>s. emitted e cap dRoi s \<Longrightarrow> Q cap dRoi weeks s"
  shows "list_all (Q cap dRoi weeks) (acc st) \<Longrightarrow> cache_all Q (wheelCache st) \<Longrightarrow>
         list_all (Q cap dRoi weeks)
           (acc (foldl (process_symbol e cap dRoi weeks today mn mx) st symbols)) \<and>
         cache_all Q (wheelCache (foldl (process_symbol e cap dRoi weeks today mn mx) st symbols))"
proof (induction symbols arbitrary: st)
  case Nil
  then show ?case by simp
next
  case (Cons smb symbols)
  show ?case
    using Cons.IH[of "process_symbol e cap dRoi weeks today mn mx st smb"]
      process_symbol_all[where Q=Q and weeks=weeks and today=today and mn=mn and mx=mx
        and smb=smb, OF em Cons.prems]
    by simp
qed

lemma run_symbols_all:
  assumes em: "\<And>s. emitted e cap dRoi s \<Longrightarrow> Q cap dRoi weeks s"
    and c: "cache_all Q c"
  shows "list_all (Q cap dRoi weeks) (acc (run_symbols e c cap dRoi weeks symbols)) \<and>
         cache_all Q (wheelCache (run_symbols e c cap dRoi weeks symbols))"
  unfolding run_symbols_def Let_def forceMock_def
  using foldl_process_all[where Q=Q and weeks=weeks
      and st="\<lparr>acc = [], wheelCache = c, draws = 0, effects = []\<rparr>", OF em] c
  by simp

lemma set_insert_sorted [simp]: "set (insert_sorted cmp x ys) = insert x (set ys)"
  by (induction ys) auto

lemma set_sort_with [simp]: "set (sort_with cmp xs) = set xs"
  by (induction xs) (auto simp: sort_with_def)

lemma suggestions_assemble [simp]: "suggestions (assemble xs) = sort_with by_roi_desc xs"
  by (simp add: assemble_def Let_def)

text \<open>What a status 200 answer tells about the request.\<close>

lemma POST_Json200D:
  assumes "POST e c (Some body) = (Json200 resp, c', fx)"
  obtains x y z where
    "capital body = Finite x" "desiredRoi body = Finite y" "expirationWeeks body = Finite z"
    "parseSymbols (whitelist body) \<noteq> []" "length (parseSymbols (whitelist body)) \<le> 20"
    "resp = assemble (acc (run_symbols e c (min 5000000 (max 500 x)) (min 50 (max 0 y))
                (min 12 (max 1 z)) (parseSymbols (whitelist body))))"
    "c' = wheelCache (run_symbols e c (min 5000000 (max 500 x)) (min 50 (max 0 y))
                (min 12 (max 1 z)) (parseSymbols (whitelist body)))"
    "fx = effects (run_symbols e c (min 5000000 (max 500 x)) (min 50 (max 0 y))
                (min 12 (max 1 z)) (parseSymbols (whitelist body)))"
  using assms
  by (cases "capital body"; cases "desiredRoi body"; cases "expirationWeeks body")
     (auto simp: POST_def clampNumber_def Let_def split: if_splits)

lemma parse_example_request:
  "parseSymbols (whitelist example_request) = [''ABC'', ''XYZ'', ''NOP'']"
  by code_simp

lemma POST_example:
  "POST example_gateway Map.empty (Some example_request) =
     (let st = run_symbols example_gateway Map.empty 10000 1 1 [''ABC'', ''XYZ'', ''NOP'']
      in (Json200 (assemble (acc st)), wheelCache st, effects st))"
  using POST_200[of example_request 10000 1 1 example_gateway Map.empty]
  by (simp add: parse_example_request) (simp add: example_request_def)

lemma example_count:
  "length (suggestions_of (fst (POST example_gateway Map.empty (Some example_request)))) = 7"
  by code_simp

section \<open>The return gate\<close>

lemma toFixed2_lower: "x - 1 / 200 \<le> toFixed2 x"
proof (cases "x < 0")
  case True
  have "of_int \<lfloor>(- x) * 100 + 1 / 2\<rfloor> \<le> (- x) * 100 + 1 / 2" by (rule of_int_floor_le)
  then show ?thesis using True by (simp add: toFixed2_def field_simps)
next
  case False
  have "x * 100 + 1 / 2 < of_int \<lfloor>x * 100 + 1 / 2\<rfloor> + 1" by linarith
  then show ?thesis using False by (simp add: toFixed2_def field_simps)
qed

lemma ge_num_toFixed2: "ge_num m d \<Longrightarrow> ge_num (toFixed2_num m) (d - 1 / 100)"
proof (cases m)
  case (Finite x)
  moreover assume "ge_num m d"
  ultimately show ?thesis using toFixed2_lower[of x] by simp
qed simp_all

lemma emitted_roi_gate: "emitted e cap dRoi s \<Longrightarrow> roi_gate cap dRoi weeks s"
  unfolding emitted_def roi_gate_def
  by (auto simp: screen_put_def screen_call_def mock_put_def mock_call_def Let_def ge_num_toFixed2
           split: option.splits if_splits)

text \<open>
  Claim C1. For a request that passes validation and whose desiredRoi lies in its
  bound [0, 50], every suggestion of the response has \<open>roi \<ge> desiredRoi - 0.01\<close>.
  Suggestions come from the live screening, from the generator or from the
  cache; the cache holds only suggestions that passed the gate of their own key,
  which is true of the empty cache of a fresh process and is kept by every
  request.
\<close>

theorem roi_gate_holds:
  assumes "cache_all roi_gate c"
    and "POST e c (Some body) = (Json200 resp, c', fx)"
    and "desiredRoi body = Finite r" "0 \<le> r" "r \<le> 50"
  shows "(\<forall>s \<in> set (suggestions resp). ge_num (roi s) (r - 1 / 100)) \<and> cache_all roi_gate c'"
proof -
  from assms(2) obtain x y z where
    b: "desiredRoi body = Finite y"
    and r: "resp = assemble (acc (run_symbols e c (min 5000000 (max 500 x)) (min 50 (max 0 y))
                (min 12 (max 1 z)) (parseSymbols (whitelist body))))"
    and c': "c' = wheelCache (run_symbols e c (min 5000000 (max 500 x)) (min 50 (max 0 y))
                (min 12 (max 1 z)) (parseSymbols (whitelist body)))"
    by (rule POST_Json200D)
  have y: "min 50 (max 0 y) = r" using b assms(3-5) by simp
  show ?thesis
    using run_symbols_all[where Q=roi_gate and e=e and cap="min 5000000 (max 500 x)"
        and dRoi=r and weeks="min 12 (max 1 z)" and c=c
        and symbols="parseSymbols (whitelist body)", OF emitted_roi_gate[where e=e] assms(1)]
    unfolding r c' y by (simp add: list_all_iff roi_gate_def)
qed

theorem roi_gate_holds_witness:
  "cache_all roi_gate Map.empty \<and>
   length (suggestions_of (fst (POST example_gateway Map.empty (Some example_request)))) = 7 \<and>
   list_all (\<lambda>s. ge_num (roi s) (1 - 1 / 100))
     (suggestions_of (fst (POST example_gateway Map.empty (Some example_request))))"
proof -
  have "list_all (\<lambda>s. ge_num (roi s) (1 - 1 / 100))
     (suggestions_of (fst (POST example_gateway Map.empty (Some example_request))))"
    using roi_gate_holds[OF cache_all_empty, of example_gateway example_request _ _ _ 1]
      POST_example
    by (simp add: Let_def suggestions_of_def list_all_iff example_request_def)
  then show ?thesis using example_count cache_all_empty by simp
qed

section \<open>Break-even\<close>

lemma emitted_break_even: "emitted e cap dRoi s \<Longrightarrow> break_even_rule cap dRoi weeks s"
  unfolding emitted_def break_even_rule_def
  by (auto simp: screen_put_def screen_call_def mock_put_def mock_call_def Let_def
           split: option.splits if_splits)

lemma example_types:
  "map type (suggestions_of (fst (POST example_gateway Map.empty (Some example_request)))) =
     [PUT, PUT, PUT, PUT, COVERED_CALL, COVERED_CALL, COVERED_CALL]"
  by code_simp

text \<open>
  Claim C9. In every suggestion of a response, \<open>breakEven\<close> is the strike price
  minus the premium for a put and the current price minus the premium for a
  covered call, rounded to two decimals. The cache holds only suggestions built
  this way, which is true of the empty cache and is kept by every request.
\<close>

theorem break_even_at_emission:
  assumes "cache_all break_even_rule c"
    and "POST e c (Some body) = (Json200 resp, c', fx)"
  shows "(\<forall>s \<in> set (suggestions resp).
            (type s = PUT \<longrightarrow> breakEven s = toFixed2 (strikePrice s - premium s)) \<and>
            (type s = COVERED_CALL \<longrightarrow> breakEven s = toFixed2 (currentPrice s - premium s))) \<and>
         cache_all break_even_rule c'"
proof -
  from assms(2) obtain x y z where
    r: "resp = assemble (acc (run_symbols e c (min 5000000 (max 500 x)) (min 50 (max 0 y))
                (min 12 (max 1 z)) (parseSymbols (whitelist body))))"
    and c': "c' = wheelCache (run_symbols e c (min 5000000 (max 500 x)) (min 50 (max 0 y))
                (min 12 (max 1 z)) (parseSymbols (whitelist body)))"
    by (rule POST_Json200D)
  show ?thesis
    using run_symbols_all[where Q=break_even_rule and e=e and cap="min 5000000 (max 500 x)"
        and dRoi="min 50 (max 0 y)" and weeks="min 12 (max 1 z)" and c=c
        and symbols="parseSymbols (whitelist body)", OF emitted_break_even[where e=e] assms(1)]
    unfolding r c' by (auto simp: list_all_iff break_even_rule_def)
qed

theorem break_even_at_emission_witness:
  "cache_all break_even_rule Map.empty \<and>
   map type (suggestions_of (fst (POST example_gateway Map.empty (Some example_request)))) =
     [PUT, PUT, PUT, PUT, COVERED_CALL, COVERED_CALL, COVERED_CALL] \<and>
   list_all (\<lambda>s. break_even_rule 10000 1 1 s)
     (suggestions_of (fst (POST example_gateway Map.empty (Some example_request))))"
proof -
  have "list_all (\<lambda>s. break_even_rule 10000 1 1 s)
     (suggestions_of (fst (POST example_gateway Map.empty (Some example_request))))"
    using break_even_at_emission[OF cache_all_empty, of example_gateway example_request]
      POST_example
    by (auto simp: Let_def suggestions_of_def list_all_iff break_even_rule_def
             split: suggestion_type.splits)
  then show ?thesis using example_types cache_all_empty by simp
qed

section \<open>Ranking\<close>

lemma ge_num_not_NaN: "ge_num m d \<Longrightarrow> toFixed2_num m \<noteq> NaN"
  by (cases m) auto

lemma emitted_roi_defined: "emitted e cap dRoi s \<Longrightarrow> roi_defined cap dRoi weeks s"
  unfolding emitted_def roi_defined_def
  by (auto simp: screen_put_def screen_call_def mock_put_def mock_call_def Let_def
           split: option.splits if_splits dest: ge_num_not_NaN)

lemma geq_num_total:
  "a \<noteq> NaN \<Longrightarrow> b \<noteq> NaN \<Longrightarrow> \<not> positive_num (minus_num b a) \<Longrightarrow> geq_num a b"
  by (cases a; cases b) auto

lemma positive_minus_geq: "positive_num (minus_num b a) \<Longrightarrow> geq_num b a"
  by (cases a; cases b) auto

lemma geq_num_trans: "geq_num a b \<Longrightarrow> geq_num b c \<Longrightarrow> geq_num a c"
  by (cases a; cases b; cases c) auto

lemma sorted_insert_sorted:
  assumes "roi x \<noteq> NaN" "\<forall>y\<in>set ys. roi y \<noteq> NaN"
    and "sorted_wrt (\<lambda>a b. geq_num (roi a) (roi b)) ys"
  shows "sorted_wrt (\<lambda>a b. geq_num (roi a) (roi b)) (insert_sorted by_roi_desc x ys)"
  using assms
proof (induction ys)
  case Nil
  then show ?case by simp
next
  case (Cons y ys)
  show ?case
  proof (cases "positive_num (by_roi_desc x y)")
    case True
    then have "geq_num (roi y) (roi x)" by (simp add: by_roi_desc_def positive_minus_geq)
    then show ?thesis using True Cons by auto
  next
    case False
    then have xy: "geq_num (roi x) (roi y)"
      using Cons.prems by (simp add: by_roi_desc_def geq_num_total)
    then have "\<forall>z\<in>set ys. geq_num (roi x) (roi z)"
      using Cons.prems(3) by (auto intro: geq_num_trans)
    then show ?thesis using False xy Cons.prems(3) by simp
  qed
qed

lemma sorted_sort_with:
  "\<forall>y\<in>set xs. roi y \<noteq> NaN \<Longrightarrow>
   sorted_wrt (\<lambda>a b. geq_num (roi a) (roi b)) (sort_with by_roi_desc xs)"
proof (induction xs)
  case Nil
  then show ?case by (simp add: sort_with_def)
next
  case (Cons x xs)
  then have "sorted_wrt (\<lambda>a b. geq_num (roi a) (roi b)) (sort_with by_roi_desc xs)" by simp
  then have "sorted_wrt (\<lambda>a b. geq_num (roi a) (roi b))
               (insert_sorted by_roi_desc x (sort_with by_roi_desc xs))"
    using Cons.prems by (intro sorted_insert_sorted) auto
  then show ?case by (simp add: sort_with_def)
qed

lemma positive_minus_neq: "positive_num (minus_num b a) \<Longrightarrow> a \<noteq> b"
  by (cases a; cases b) auto

lemma filter_insert_sorted:
  "filter (\<lambda>s. roi s = v) (insert_sorted by_roi_desc x ys) = filter (\<lambda>s. roi s = v) (x # ys)"
  by (induction ys) (auto simp: by_roi_desc_def dest: positive_minus_neq)

lemma stable_sort_with:
  "filter (\<lambda>s. roi s = v) (sort_with by_roi_desc xs) = filter (\<lambda>s. roi s = v) xs"
proof (induction xs)
  case Nil
  then show ?case by (simp add: sort_with_def)
next
  case (Cons x xs)
  have "sort_with by_roi_desc (x # xs) = insert_sorted by_roi_desc x (sort_with by_roi_desc xs)"
    by (simp add: sort_with_def)
  then show ?case using Cons by (simp add: filter_insert_sorted)
qed

lemma example_rois:
  "map roi (suggestions_of (fst (POST example_gateway Map.empty (Some example_request)))) =
     [Finite (451 / 50), Finite (857 / 100), Finite (857 / 100), Finite (857 / 100),
      Finite (643 / 100), Finite (39 / 10), Finite (39 / 10)]"
  by code_simp

text \<open>
  Claim C8. The suggestions of every response are in non-increasing order of
  \<open>roi\<close>. The order is a function of the collected list: suggestions of equal
  \<open>roi\<close> keep the order in which the handler collected them. (No stored \<open>roi\<close> is
  NaN: a NaN return fails the gate, so none is emitted and none is cached.) The
  same two statements end the handler of \<^verbatim>\<open>src/app/api/suggestions/route.ts\<close>.
\<close>

theorem sorted_by_roi:
  assumes "cache_all roi_defined c"
    and "POST e c (Some body) = (Json200 resp, c', fx)"
  shows "sorted_wrt (\<lambda>a b. geq_num (roi a) (roi b)) (suggestions resp) \<and>
         cache_all roi_defined c' \<and>
         (\<forall>xs v. filter (\<lambda>s. roi s = v) (suggestions (assemble xs)) = filter (\<lambda>s. roi s = v) xs)"
proof -
  from assms(2) obtain x y z where
    r: "resp = assemble (acc (run_symbols e c (min 5000000 (max 500 x)) (min 50 (max 0 y))
                (min 12 (max 1 z)) (parseSymbols (whitelist body))))"
    and c': "c' = wheelCache (run_symbols e c (min 5000000 (max 500 x)) (min 50 (max 0 y))
                (min 12 (max 1 z)) (parseSymbols (whitelist body)))"
    by (rule POST_Json200D)
  show ?thesis
    using run_symbols_all[where Q=roi_defined and e=e and cap="min 5000000 (max 500 x)"
        and dRoi="min 50 (max 0 y)" and weeks="min 12 (max 1 z)" and c=c
        and symbols="parseSymbols (whitelist body)", OF emitted_roi_defined[where e=e] assms(1)]
    unfolding r c'
    by (auto simp: list_all_iff roi_defined_def stable_sort_with intro: sorted_sort_with)
qed

theorem sorted_by_roi_witness:
  "cache_all roi_defined Map.empty \<and>
   map roi (suggestions_of (fst (POST example_gateway Map.empty (Some example_request)))) =
     [Finite (451 / 50), Finite (857 / 100), Finite (857 / 100), Finite (857 / 100),
      Finite (643 / 100), Finite (39 / 10), Finite (39 / 10)] \<and>
   sorted_wrt (\<lambda>a b. geq_num (roi a) (roi b))
     (suggestions_of (fst (POST example_gateway Map.empty (Some example_request))))"
proof -
  have "sorted_wrt (\<lambda>a b. geq_num (roi a) (roi b))
     (suggestions_of (fst (POST example_gateway Map.empty (Some example_request))))"
    using sorted_by_roi[OF cache_all_empty, of example_gateway example_request] POST_example
    by (simp add: Let_def suggestions_of_def)
  then show ?thesis using example_rois cache_all_empty by simp
qed

section \<open>The source tag\<close>

lemma source_assemble:
  "source (assemble xs) = (if \<exists>s\<in>set xs. prefix ''Mock'' (contract s) then Mock else Live)"
  by (simp add: assemble_def Let_def forceMock_def list_ex_iff)

lemma example_contracts:
  "map contract (suggestions_of (fst (POST example_gateway Map.empty (Some example_request)))) =
     [''ABC261108P00095000'', ''Mock-XYZ-2026-11-08-1P'', ''Mock-XYZ-2026-11-08-1P'',
      ''Mock-XYZ-2026-11-08-1P'', ''ABC261108C00105000'', ''Mock-XYZ-2026-11-08-1C'',
      ''Mock-XYZ-2026-11-08-1C'']"
  by code_simp

text \<open>
  Claim C4, as stated, fails: a request whose only symbol has no usable price
  yields an empty list, and the tag of the response is \<open>live\<close>, not \<open>mock\<close>.
\<close>

theorem empty_list_tagged_live:
  "fst (POST example_gateway Map.empty (Some nop_request)) =
     Json200 \<lparr>suggestions = [], source = Live, debug = None\<rparr>"
  by code_simp

text \<open>
  Claim C4, amended. The tag is \<open>mock\<close> exactly when some suggestion of the
  response has a contract identifier that starts with \<open>Mock\<close>, and \<open>live\<close>
  otherwise; in particular it is \<open>live\<close> for an empty list, and \<open>mock\<close> for a list
  that mixes gateway and synthetic suggestions. The same expression ends the
  handler of \<^verbatim>\<open>src/app/api/suggestions/route.ts\<close>.
\<close>

theorem source_tag_by_marker:
  assumes "POST e c (Some body) = (Json200 resp, c', fx)"
  shows "(source resp = Mock \<longleftrightarrow> (\<exists>s \<in> set (suggestions resp). prefix ''Mock'' (contract s))) \<and>
         (source resp = Live \<longleftrightarrow> \<not> (\<exists>s \<in> set (suggestions resp). prefix ''Mock'' (contract s))) \<and>
         (suggestions resp = [] \<longrightarrow> source resp = Live)"
proof -
  from assms obtain xs where r: "resp = assemble xs" by (rule POST_Json200D)
  have "sort_with by_roi_desc xs = [] \<longrightarrow> xs = []"
    using set_sort_with[of by_roi_desc xs] by (metis set_empty)
  then show ?thesis unfolding r source_assemble by auto
qed

theorem source_tag_by_marker_witness:
  "map contract (suggestions_of (fst (POST example_gateway Map.empty (Some example_request)))) =
     [''ABC261108P00095000'', ''Mock-XYZ-2026-11-08-1P'', ''Mock-XYZ-2026-11-08-1P'',
      ''Mock-XYZ-2026-11-08-1P'', ''ABC261108C00105000'', ''Mock-XYZ-2026-11-08-1C'',
      ''Mock-XYZ-2026-11-08-1C''] \<and>
   (case fst (POST example_gateway Map.empty (Some example_request)) of
      Json200 resp \<Rightarrow> source resp = Mock
    | _ \<Rightarrow> False)"
proof -
  let ?st = "run_symbols example_gateway Map.empty 10000 1 1 [''ABC'', ''XYZ'', ''NOP'']"
  have p: "POST example_gateway Map.empty (Some example_request) =
     (Json200 (assemble (acc ?st)), wheelCache ?st, effects ?st)"
    using POST_example by (simp add: Let_def)
  have "\<exists>s \<in> set (suggestions (assemble (acc ?st))). prefix ''Mock'' (contract s)"
  proof -
    have m: "map contract (suggestions (assemble (acc ?st))) =
      [''ABC261108P00095000'', ''Mock-XYZ-2026-11-08-1P'', ''Mock-XYZ-2026-11-08-1P'',
       ''Mock-XYZ-2026-11-08-1P'', ''ABC261108C00105000'', ''Mock-XYZ-2026-11-08-1C'',
       ''Mock-XYZ-2026-11-08-1C'']"
      using example_contracts unfolding p suggestions_of_def by simp
    have "''Mock-XYZ-2026-11-08-1P'' \<in> set (map contract (suggestions (assemble (acc ?st))))"
      unfolding m by simp
    then obtain s where "s \<in> set (suggestions (assemble (acc ?st)))"
      and "contract s = ''Mock-XYZ-2026-11-08-1P''"
      unfolding set_map by auto
    then show ?thesis by (intro bexI[of _ s]) simp_all
  qed
  then have "source (assemble (acc ?st)) = Mock"
    using source_tag_by_marker[OF p] by simp
  then show ?thesis using example_contracts by (simp add: p)
qed

section \<open>Covered calls below the current price\<close>

lemma live_call_not_below_price:
  "s \<in> set (screen_call e smb cap dRoi cp today date c) \<Longrightarrow>
   type s = COVERED_CALL \<and> currentPrice s \<le> strikePrice s"
  by (auto simp: screen_call_def Let_def split: option.splits if_splits)

lemma live_put_not_call:
  "s \<in> set (screen_put e smb cap dRoi cp today date c) \<Longrightarrow> type s = PUT"
  by (auto simp: screen_put_def Let_def split: option.splits if_splits)

text \<open>
  Claim C6 holds of the live screening (\<open>live_call_not_below_price\<close>) and fails in
  the generator. With the quote call throwing and a last close of 1.10 recovered
  from the chart, the generator rounds both call strikes, 1.155 and 1.21, to 1.0
  and emits covered calls with strike 1.0 below the current price 1.10.
\<close>

theorem mock_call_below_price:
  "map (\<lambda>s. (type s, strikePrice s, currentPrice s, contract s))
     (suggestions_of (fst (POST example_gateway Map.empty (Some xyz_request)))) =
   [(PUT, 1, 11 / 10, ''Mock-XYZ-2026-11-08-1P''),
    (PUT, 1, 11 / 10, ''Mock-XYZ-2026-11-08-1P''),
    (PUT, 1, 11 / 10, ''Mock-XYZ-2026-11-08-1P''),
    (COVERED_CALL, 1, 11 / 10, ''Mock-XYZ-2026-11-08-1C''),
    (COVERED_CALL, 1, 11 / 10, ''Mock-XYZ-2026-11-08-1C'')]"
  by code_simp

section \<open>The fallback for one symbol whose quote call throws\<close>

lemma for_each_empty:
  "(\<And>k x. body k x = ([], k)) \<Longrightarrow> for_each body k xs = ([], k)"
  by (induction xs arbitrary: k) simp_all

lemma pltr_week_empty: "mock_week e smb 10000 dRoi 170 k i = ([], k)"
  by (simp add: mock_week_def mock_put_def mock_call_def Let_def Math_round_def)

lemma pltr_static_price_empty:
  "generateMockSuggestions e ''PLTR'' 10000 dRoi weeks None k = ([], k)"
  by (simp add: generateMockSuggestions_def Let_def stockMap_def or_else_def truthy_def
        for_each_empty pltr_week_empty)

lemma mock_put_marker:
  "s \<in> set (fst (mock_put e smb cap dRoi cp i d k strk)) \<Longrightarrow>
   prefix ''Mock'' (contract s) \<and> type s = PUT \<and> strikePrice s * 100 \<le> cap"
  by (auto simp: mock_put_def Let_def split: if_splits)

lemma mock_call_marker:
  "s \<in> set (fst (mock_call e smb cap dRoi cp i d k strk)) \<Longrightarrow>
   prefix ''Mock'' (contract s) \<and> type s = COVERED_CALL"
  by (auto simp: mock_call_def Let_def split: if_splits)

lemma mock_week_synthetic:
  assumes "s \<in> set (fst (mock_week e smb cap dRoi cp k i))"
  shows "synthetic cap s"
proof -
  have p: "\<And>d k xs. s \<in> set (fst (for_each (mock_put e smb cap dRoi cp i d) k xs)) \<Longrightarrow>
             synthetic cap s"
    by (rule for_each_set[where P="synthetic cap"]) (auto simp: synthetic_def dest: mock_put_marker)
  have q: "\<And>d k xs. s \<in> set (fst (for_each (mock_call e smb cap dRoi cp i d) k xs)) \<Longrightarrow>
             synthetic cap s"
    by (rule for_each_set[where P="synthetic cap"]) (auto simp: synthetic_def dest: mock_call_marker)
  from assms show ?thesis
    unfolding mock_week_def Let_def
    by (auto split: prod.splits simp del: for_each.simps) (metis fst_conv p q)+
qed

lemma generateMock_synthetic:
  "s \<in> set (fst (generateMockSuggestions e smb cap dRoi weeks ref k)) \<Longrightarrow> synthetic cap s"
  unfolding generateMockSuggestions_def Let_def
  by (rule for_each_set[where P="synthetic cap"]) (auto dest: mock_week_synthetic)

lemma POST_pltr:
  "POST e c (Some pltr_request) =
     (let st = run_symbols e c 10000 1 4 [''PLTR'']
      in (Json200 (assemble (acc st)), wheelCache st, effects st))"
  using POST_200[of pltr_request 10000 1 4 e c]
  by (simp add: pltr_request_def parse_PLTR)

lemma run_pltr_down:
  assumes "yahoo_quote e ''PLTR'' = None" "cache_hit e c (''PLTR'', 10000, 1, 4) = None"
  shows "acc (run_symbols e c 10000 1 4 [''PLTR'']) =
           (if DISABLE_MOCK_FALLBACK e then []
            else fst (generateMockSuggestions e ''PLTR'' 10000 1 4 (fst (recover_history e ''PLTR'')) 0))"
  using assms
  by (simp add: run_symbols_def forceMock_def Let_def process_symbol_def screen_symbol_def
        mock_fallback_def split: prod.splits)

lemma history_only_count:
  "length (suggestions_of (fst (POST history_only Map.empty (Some pltr_request)))) = 20"
  by code_simp

text \<open>
  Claim C5, as stated, fails: with every gateway call throwing, the generator
  starts from its static price 170 for PLTR, every lot costs more than the
  capital 10000, the list is empty and the tag is \<open>live\<close>.
\<close>

theorem pltr_gateway_down_tagged_live:
  "fst (POST gateway_down Map.empty (Some pltr_request)) =
     Json200 \<lparr>suggestions = [], source = Live, debug = None\<rparr>"
  by code_simp

text \<open>
  Claim C5, amended. For this request, when the quote call for PLTR throws and
  the cache has no unexpired entry for it: every contract identifier of the
  response starts with \<open>Mock\<close>, every put has a strike of at most 100, and the tag
  is \<open>mock\<close> exactly when the list is not empty. When the history lookup recovers
  no price either, the list is empty and the tag is \<open>live\<close>.
\<close>

theorem pltr_fallback:
  assumes "yahoo_quote e ''PLTR'' = None" "cache_hit e c (''PLTR'', 10000, 1, 4) = None"
    and "POST e c (Some pltr_request) = (Json200 resp, c', fx)"
  shows "(\<forall>s \<in> set (suggestions resp). prefix ''Mock'' (contract s)) \<and>
         (\<forall>s \<in> set (suggestions resp). type s = PUT \<longrightarrow> strikePrice s \<le> 100) \<and>
         (source resp = Mock \<longleftrightarrow> suggestions resp \<noteq> []) \<and>
         (fst (recover_history e ''PLTR'') = None \<longrightarrow> suggestions resp = [] \<and> source resp = Live)"
proof -
  let ?xs = "acc (run_symbols e c 10000 1 4 [''PLTR''])"
  have r: "resp = assemble ?xs" using assms(3) by (simp add: POST_pltr Let_def)
  have syn: "\<forall>s \<in> set ?xs. synthetic 10000 s"
    unfolding run_pltr_down[OF assms(1,2)] by (auto dest: generateMock_synthetic)
  have nil: "fst (recover_history e ''PLTR'') = None \<longrightarrow> ?xs = []"
    unfolding run_pltr_down[OF assms(1,2)] by (simp add: pltr_static_price_empty)
  have e: "suggestions resp = [] \<longleftrightarrow> ?xs = []"
    using set_sort_with[of by_roi_desc ?xs] unfolding r suggestions_assemble by (metis set_empty)
  have m: "source resp = Mock \<longleftrightarrow> ?xs \<noteq> []"
    unfolding r source_assemble using syn by (cases ?xs) (auto simp: synthetic_def)
  have l: "source resp \<noteq> Mock \<longrightarrow> source resp = Live"
    by (cases "source resp") simp_all
  show ?thesis
    using syn nil e m l by (auto simp: r synthetic_def)
qed

theorem pltr_fallback_witness:
  "yahoo_quote history_only ''PLTR'' = None \<and>
   cache_hit history_only Map.empty (''PLTR'', 10000, 1, 4) = None \<and>
   length (suggestions_of (fst (POST history_only Map.empty (Some pltr_request)))) = 20 \<and>
   list_all (synthetic 10000) (suggestions_of (fst (POST history_only Map.empty (Some pltr_request)))) \<and>
   (case fst (POST history_only Map.empty (Some pltr_request)) of
      Json200 resp \<Rightarrow> source resp = Mock
    | _ \<Rightarrow> False)"
proof -
  let ?st = "run_symbols history_only Map.empty 10000 1 4 [''PLTR'']"
  have q: "yahoo_quote history_only ''PLTR'' = None"
    by (simp add: history_only_def gateway_down_def)
  have h: "cache_hit history_only Map.empty (''PLTR'', 10000, 1, 4) = None"
    by (simp add: cache_hit_def)
  have p: "POST history_only Map.empty (Some pltr_request) =
     (Json200 (assemble (acc ?st)), wheelCache ?st, effects ?st)"
    by (simp add: POST_pltr Let_def)
  have n: "length (suggestions (assemble (acc ?st))) = 20"
    using history_only_count by (simp add: p suggestions_of_def)
  then have ne: "suggestions (assemble (acc ?st)) \<noteq> []" by auto
  show ?thesis
    using pltr_fallback[OF q h p] q h n ne
    by (simp add: p suggestions_of_def list_all_iff synthetic_def)
qed

section \<open>The calls made for each symbol\<close>

lemma run_symbols_foldl:
  "run_symbols e c cap dRoi weeks symbols =
     foldl (process_symbol e cap dRoi weeks (Date_now e)
              (addDays (Date_now e) (max 0 (weeks * 7 - 10))) (addDays (Date_now e) (weeks * 7 + 10)))
       \<lparr>acc = [], wheelCache = c, draws = 0, effects = []\<rparr> symbols"
  by (simp add: run_symbols_def forceMock_def Let_def)

lemma effects_mock_fallback:
  "effects (mock_fallback e cap dRoi weeks st smb) = effects st @ fallback_calls e smb"
  by (simp add: mock_fallback_def fallback_calls_def Let_def split: prod.splits)

lemma cache_hit_empty [simp]: "cache_hit e Map.empty k = None"
  by (simp add: cache_hit_def)

lemma effects_process_symbol:
  "effects (process_symbol e cap dRoi weeks (Date_now e)
      (addDays (Date_now e) (max 0 (weeks * 7 - 10))) (addDays (Date_now e) (weeks * 7 + 10)) st smb) =
   effects st @
     (if cache_hit e (wheelCache st) (smb, cap, dRoi, weeks) = None
      then symbol_calls e cap dRoi weeks smb else [])"
  by (auto simp: symbol_calls_def run_symbols_foldl process_symbol_def Let_def
        effects_mock_fallback split: prod.splits option.splits outcome.splits)

lemma wheelCache_process_symbol_other:
  "k \<noteq> (smb, cap, dRoi, weeks) \<Longrightarrow>
   wheelCache (process_symbol e cap dRoi weeks today mn mx st smb) k = wheelCache st k"
  by (auto simp: process_symbol_def Let_def split: prod.splits option.splits outcome.splits)

lemma cache_hit_process_symbol_other:
  "smb' \<noteq> smb \<Longrightarrow>
   cache_hit e (wheelCache (process_symbol e cap dRoi weeks today mn mx st smb)) (smb', cap, dRoi, weeks) =
   cache_hit e (wheelCache st) (smb', cap, dRoi, weeks)"
  by (simp add: cache_hit_def wheelCache_process_symbol_other)

lemma effects_foldl:
  "distinct symbols \<Longrightarrow>
   effects (foldl (process_symbol e cap dRoi weeks (Date_now e)
      (addDays (Date_now e) (max 0 (weeks * 7 - 10))) (addDays (Date_now e) (weeks * 7 + 10))) st symbols) =
   effects st @ concat (map (\<lambda>smb.
      if cache_hit e (wheelCache st) (smb, cap, dRoi, weeks) = None
      then symbol_calls e cap dRoi weeks smb else []) symbols)"
proof (induction symbols arbitrary: st)
  case Nil
  then show ?case by simp
next
  case (Cons smb symbols)
  let ?st = "process_symbol e cap dRoi weeks (Date_now e)
      (addDays (Date_now e) (max 0 (weeks * 7 - 10))) (addDays (Date_now e) (weeks * 7 + 10)) st smb"
  have m: "map (\<lambda>s. if cache_hit e (wheelCache ?st) (s, cap, dRoi, weeks) = None
            then symbol_calls e cap dRoi weeks s else []) symbols =
        map (\<lambda>s. if cache_hit e (wheelCache st) (s, cap, dRoi, weeks) = None
            then symbol_calls e cap dRoi weeks s else []) symbols"
  proof (intro map_cong refl)
    fix x assume "x \<in> set symbols"
    then have "x \<noteq> smb" using Cons.prems by auto
    then show "(if cache_hit e (wheelCache ?st) (x, cap, dRoi, weeks) = None
            then symbol_calls e cap dRoi weeks x else []) =
        (if cache_hit e (wheelCache st) (x, cap, dRoi, weeks) = None
            then symbol_calls e cap dRoi weeks x else [])"
      by (simp add: cache_hit_process_symbol_other)
  qed
  have "effects (foldl (process_symbol e cap dRoi weeks (Date_now e)
      (addDays (Date_now e) (max 0 (weeks * 7 - 10))) (addDays (Date_now e) (weeks * 7 + 10)))
        ?st symbols) =
      effects ?st @ concat (map (\<lambda>s. if cache_hit e (wheelCache ?st) (s, cap, dRoi, weeks) = None
            then symbol_calls e cap dRoi weeks s else []) symbols)"
    using Cons.IH[of ?st] Cons.prems by simp
  also have "\<dots> = effects ?st @ concat (map (\<lambda>s. if cache_hit e (wheelCache st) (s, cap, dRoi, weeks) = None
            then symbol_calls e cap dRoi weeks s else []) symbols)"
    by (simp only: m)
  finally show ?case by (simp add: effects_process_symbol)
qed

lemma effects_run_symbols:
  "distinct symbols \<Longrightarrow>
   effects (run_symbols e c cap dRoi weeks symbols) =
   concat (map (\<lambda>smb.
      if cache_hit e c (smb, cap, dRoi, weeks) = None
      then symbol_calls e cap dRoi weeks smb else []) symbols)"
  by (simp add: run_symbols_foldl effects_foldl)

lemma symbol_calls_eq:
  "symbol_calls e cap dRoi weeks smb =
     (case live_attempt e cap dRoi weeks smb of
        (new, cs, Threw) \<Rightarrow> cs @ fallback_calls e smb
      | (new, cs, out) \<Rightarrow> cs)"
  by (auto simp: symbol_calls_def run_symbols_foldl process_symbol_def live_attempt_def Let_def
        effects_mock_fallback split: prod.splits outcome.splits)

lemma acc_alone:
  "acc (run_symbols e Map.empty cap dRoi weeks [smb]) =
     (case live_attempt e cap dRoi weeks smb of
        (new, cs, Threw) \<Rightarrow>
          new @ (if DISABLE_MOCK_FALLBACK e then []
                 else fst (generateMockSuggestions e smb cap dRoi weeks (fst (recover_history e smb)) 0))
      | (new, cs, out) \<Rightarrow> new)"
  by (auto simp: run_symbols_foldl process_symbol_def live_attempt_def Let_def
        mock_fallback_def split: prod.splits outcome.splits)

lemma live_attempt_quote_throws:
  "yahoo_quote e smb = None \<Longrightarrow> live_attempt e cap dRoi weeks smb = ([], [QuoteCall smb], Threw)"
  by (simp add: live_attempt_def screen_symbol_def)

lemma live_attempt_no_price:
  "yahoo_quote e smb = Some q \<Longrightarrow> quote_price q = None \<Longrightarrow>
   live_attempt e cap dRoi weeks smb = ([], [QuoteCall smb], NoPrice)"
  by (simp add: live_attempt_def screen_symbol_def)

lemma live_attempt_options_throws:
  "yahoo_quote e smb = Some q \<Longrightarrow> quote_price q = Some cp \<Longrightarrow> yahoo_options e smb = None \<Longrightarrow>
   live_attempt e cap dRoi weeks smb = ([], [QuoteCall smb, OptionsCall smb], Threw)"
  by (simp add: live_attempt_def screen_symbol_def)

lemma screen_dates_throws:
  "d \<in> set ds \<Longrightarrow> yahoo_chain e smb d = None \<Longrightarrow>
   snd (snd (screen_dates e smb cap dRoi cp today ds)) = False"
  by (induction ds) (auto split: option.splits prod.splits)

lemma live_attempt_chain_throws:
  assumes "yahoo_quote e smb = Some q" "quote_price q = Some cp" "yahoo_options e smb = Some ds"
    and "d \<in> set ds" "addDays (Date_now e) (max 0 (weeks * 7 - 10)) \<le> d"
        "d \<le> addDays (Date_now e) (weeks * 7 + 10)" "yahoo_chain e smb d = None"
  shows "snd (snd (live_attempt e cap dRoi weeks smb)) = Threw"
proof -
  let ?rel = "filter (\<lambda>d. addDays (Date_now e) (max 0 (weeks * 7 - 10)) \<le> d \<and>
                 d \<le> addDays (Date_now e) (weeks * 7 + 10)) ds"
  have "d \<in> set ?rel" using assms by simp
  then have "snd (snd (screen_dates e smb cap dRoi cp (Date_now e) ?rel)) = False"
    using assms(7) by (rule screen_dates_throws)
  then show ?thesis using assms(1-3)
    by (cases "screen_dates e smb cap dRoi cp (Date_now e) ?rel")
       (simp add: live_attempt_def screen_symbol_def Let_def)
qed

lemma example_calls:
  "snd (snd (POST example_gateway Map.empty (Some example_request))) =
     [QuoteCall ''ABC'', OptionsCall ''ABC'', ChainCall ''ABC'' 1794139200000,
      QuoteCall ''XYZ'', ChartCall ''XYZ'' ''2026-10-25'' ''2026-11-01'',
      MockCall ''XYZ'' (Some (11 / 10)),
      QuoteCall ''NOP'']"
  by code_simp

lemma example_history:
  "recover_history example_gateway ''XYZ'' =
     (Some (11 / 10), ChartCall ''XYZ'' ''2026-10-25'' ''2026-11-01'')"
  by code_simp

text \<open>
  Claim C3, as stated, fails: for a symbol whose quote has no usable price the
  handler makes the quote call and nothing else: no history lookup, no generator
  call, no suggestion.
\<close>

theorem no_price_skips_fallback:
  "snd (snd (POST example_gateway Map.empty (Some nop_request))) = [QuoteCall ''NOP''] \<and>
   suggestions_of (fst (POST example_gateway Map.empty (Some nop_request))) = []"
  by code_simp

text \<open>
  Claim C3, amended. The calls of a request are, symbol after symbol in the order
  of the list, the calls each symbol gets when it is handled alone; a symbol with
  an unexpired cache entry gets none. So no symbol's failure stops the handling of
  the symbols after it. For a symbol handled alone: when a gateway call of the
  live path throws (the quote, the expiration list, or the chain of a retained
  date), the handler looks the history up and then, unless
  \<^verbatim>\<open>DISABLE_MOCK_FALLBACK\<close> is set, calls the generator with the recovered price,
  and the suggestions are those pushed before the failure followed by the
  generator's; when the quote has no usable price, the quote call is the only
  call and there is no suggestion.
\<close>

theorem fallback_per_symbol:
  assumes "clampNumber (capital body) 500 5000000 = Some cap"
    and "clampNumber (desiredRoi body) 0 50 = Some dRoi"
    and "clampNumber (expirationWeeks body) 1 12 = Some weeks"
    and "POST e c (Some body) = (Json200 resp, c', fx)"
  shows "fx = concat (map (\<lambda>smb.
                 if cache_hit e c (smb, cap, dRoi, weeks) = None
                 then symbol_calls e cap dRoi weeks smb else [])
               (parseSymbols (whitelist body))) \<and>
         (\<forall>smb new cs. live_attempt e cap dRoi weeks smb = (new, cs, Threw) \<longrightarrow>
            symbol_calls e cap dRoi weeks smb =
              cs @ snd (recover_history e smb) #
                (if DISABLE_MOCK_FALLBACK e then []
                 else [MockCall smb (fst (recover_history e smb))]) \<and>
            acc (run_symbols e Map.empty cap dRoi weeks [smb]) =
              new @ (if DISABLE_MOCK_FALLBACK e then []
                     else fst (generateMockSuggestions e smb cap dRoi weeks
                                 (fst (recover_history e smb)) 0))) \<and>
         (\<forall>smb new cs. live_attempt e cap dRoi weeks smb = (new, cs, NoPrice) \<longrightarrow>
            symbol_calls e cap dRoi weeks smb = [QuoteCall smb] \<and>
            acc (run_symbols e Map.empty cap dRoi weeks [smb]) = []) \<and>
         (\<forall>smb. yahoo_quote e smb = None \<longrightarrow>
            live_attempt e cap dRoi weeks smb = ([], [QuoteCall smb], Threw)) \<and>
         (\<forall>smb q. yahoo_quote e smb = Some q \<longrightarrow> quote_price q = None \<longrightarrow>
            live_attempt e cap dRoi weeks smb = ([], [QuoteCall smb], NoPrice)) \<and>
         (\<forall>smb q cp. yahoo_quote e smb = Some q \<longrightarrow> quote_price q = Some cp \<longrightarrow>
            yahoo_options e smb = None \<longrightarrow>
            live_attempt e cap dRoi weeks smb = ([], [QuoteCall smb, OptionsCall smb], Threw)) \<and>
         (\<forall>smb q cp ds d. yahoo_quote e smb = Some q \<longrightarrow> quote_price q = Some cp \<longrightarrow>
            yahoo_options e smb = Some ds \<longrightarrow> d \<in> set ds \<longrightarrow>
            addDays (Date_now e) (max 0 (weeks * 7 - 10)) \<le> d \<longrightarrow>
            d \<le> addDays (Date_now e) (weeks * 7 + 10) \<longrightarrow>
            yahoo_chain e smb d = None \<longrightarrow>
            snd (snd (live_attempt e cap dRoi weeks smb)) = Threw)"
proof -
  obtain x y z where
    f: "capital body = Finite x" "desiredRoi body = Finite y" "expirationWeeks body = Finite z"
    and cl: "cap = min 5000000 (max 500 x)" "dRoi = min 50 (max 0 y)" "weeks = min 12 (max 1 z)"
    using assms(1-3) by (auto simp: clampNumber_def split: number.splits)
  have ok: "parseSymbols (whitelist body) \<noteq> []" "length (parseSymbols (whitelist body)) \<le> 20"
    using assms(4) by (rule POST_Json200D, simp)+
  have "fx = effects (run_symbols e c cap dRoi weeks (parseSymbols (whitelist body)))"
    using assms(4) POST_200[OF f ok, of e c] by (simp add: cl Let_def)
  then have 1: "fx = concat (map (\<lambda>smb.
                 if cache_hit e c (smb, cap, dRoi, weeks) = None
                 then symbol_calls e cap dRoi weeks smb else [])
               (parseSymbols (whitelist body)))"
    by (simp add: effects_run_symbols distinct_parseSymbols)
  have 2: "\<forall>smb new cs. live_attempt e cap dRoi weeks smb = (new, cs, Threw) \<longrightarrow>
            symbol_calls e cap dRoi weeks smb =
              cs @ snd (recover_history e smb) #
                (if DISABLE_MOCK_FALLBACK e then []
                 else [MockCall smb (fst (recover_history e smb))]) \<and>
            acc (run_symbols e Map.empty cap dRoi weeks [smb]) =
              new @ (if DISABLE_MOCK_FALLBACK e then []
                     else fst (generateMockSuggestions e smb cap dRoi weeks
                                 (fst (recover_history e smb)) 0))"
  proof (intro allI impI)
    fix smb new cs
    assume l: "live_attempt e cap dRoi weeks smb = (new, cs, Threw)"
    show "symbol_calls e cap dRoi weeks smb =
              cs @ snd (recover_history e smb) #
                (if DISABLE_MOCK_FALLBACK e then []
                 else [MockCall smb (fst (recover_history e smb))]) \<and>
            acc (run_symbols e Map.empty cap dRoi weeks [smb]) =
              new @ (if DISABLE_MOCK_FALLBACK e then []
                     else fst (generateMockSuggestions e smb cap dRoi weeks
                                 (fst (recover_history e smb)) 0))"
      unfolding symbol_calls_eq acc_alone l by (simp add: fallback_calls_def)
  qed
  have 3: "\<forall>smb new cs. live_attempt e cap dRoi weeks smb = (new, cs, NoPrice) \<longrightarrow>
            symbol_calls e cap dRoi weeks smb = [QuoteCall smb] \<and>
            acc (run_symbols e Map.empty cap dRoi weeks [smb]) = []"
  proof (intro allI impI)
    fix smb new cs
    assume l: "live_attempt e cap dRoi weeks smb = (new, cs, NoPrice)"
    then have "new = [] \<and> cs = [QuoteCall smb]"
      by (auto simp: live_attempt_def screen_symbol_def Let_def
               split: option.splits prod.splits if_splits)
    then show "symbol_calls e cap dRoi weeks smb = [QuoteCall smb] \<and>
            acc (run_symbols e Map.empty cap dRoi weeks [smb]) = []"
      using l by (simp add: symbol_calls_eq acc_alone)
  qed
  have 4: "\<forall>smb. yahoo_quote e smb = None \<longrightarrow>
            live_attempt e cap dRoi weeks smb = ([], [QuoteCall smb], Threw)"
    by (simp add: live_attempt_quote_throws)
  have 5: "\<forall>smb q. yahoo_quote e smb = Some q \<longrightarrow> quote_price q = None \<longrightarrow>
            live_attempt e cap dRoi weeks smb = ([], [QuoteCall smb], NoPrice)"
    by (simp add: live_attempt_no_price)
  have 6: "\<forall>smb q cp. yahoo_quote e smb = Some q \<longrightarrow> quote_price q = Some cp \<longrightarrow>
            yahoo_options e smb = None \<longrightarrow>
            live_attempt e cap dRoi weeks smb = ([], [QuoteCall smb, OptionsCall smb], Threw)"
    by (simp add: live_attempt_options_throws)
  have 7: "\<forall>smb q cp ds d. yahoo_quote e smb = Some q \<longrightarrow> quote_price q = Some cp \<longrightarrow>
            yahoo_options e smb = Some ds \<longrightarrow> d \<in> set ds \<longrightarrow>
            addDays (Date_now e) (max 0 (weeks * 7 - 10)) \<le> d \<longrightarrow>
            d \<le> addDays (Date_now e) (weeks * 7 + 10) \<longrightarrow>
            yahoo_chain e smb d = None \<longrightarrow>
            snd (snd (live_attempt e cap dRoi weeks smb)) = Threw"
    by (intro allI impI) (rule live_attempt_chain_throws)
  show ?thesis by (intro conjI 1 2 3 4 5 6 7)
qed

theorem fallback_per_symbol_witness:
  "snd (snd (POST example_gateway Map.empty (Some example_request))) =
     symbol_calls example_gateway 10000 1 1 ''ABC'' @
     symbol_calls example_gateway 10000 1 1 ''XYZ'' @
     symbol_calls example_gateway 10000 1 1 ''NOP'' \<and>
   symbol_calls example_gateway 10000 1 1 ''XYZ'' =
     [QuoteCall ''XYZ'', ChartCall ''XYZ'' ''2026-10-25'' ''2026-11-01'',
      MockCall ''XYZ'' (Some (11 / 10))] \<and>
   symbol_calls example_gateway 10000 1 1 ''NOP'' = [QuoteCall ''NOP'']"
proof -
  let ?st = "run_symbols example_gateway Map.empty 10000 1 1 [''ABC'', ''XYZ'', ''NOP'']"
  have p: "POST example_gateway Map.empty (Some example_request) =
     (Json200 (assemble (acc ?st)), wheelCache ?st, effects ?st)"
    using POST_example by (simp add: Let_def)
  have c: "clampNumber (capital example_request) 500 5000000 = Some 10000"
    "clampNumber (desiredRoi example_request) 0 50 = Some 1"
    "clampNumber (expirationWeeks example_request) 1 12 = Some 1"
    by (simp_all add: example_request_def clampNumber_def)
  note t = fallback_per_symbol[OF c p]
  have x: "yahoo_quote example_gateway ''XYZ'' = None"
    by (simp add: example_gateway_def)
  have n: "yahoo_quote example_gateway ''NOP'' =
             Some \<lparr>regularMarketPrice = None, quote_bid = Some 0, quote_ask = None,
                   regularMarketPreviousClose = None\<rparr>"
    by (simp add: example_gateway_def)
  have np: "quote_price \<lparr>regularMarketPrice = None, quote_bid = Some 0, quote_ask = None,
                   regularMarketPreviousClose = None\<rparr> = None"
    by (simp add: quote_price_def or_else_def truthy_def)
  have d: "\<not> DISABLE_MOCK_FALLBACK example_gateway"
    by (simp add: example_gateway_def)
  have 1: "effects ?st =
     symbol_calls example_gateway 10000 1 1 ''ABC'' @
     symbol_calls example_gateway 10000 1 1 ''XYZ'' @
     symbol_calls example_gateway 10000 1 1 ''NOP''"
    using t by (simp add: parse_example_request)
  have 2: "symbol_calls example_gateway 10000 1 1 ''XYZ'' =
     [QuoteCall ''XYZ'', ChartCall ''XYZ'' ''2026-10-25'' ''2026-11-01'',
      MockCall ''XYZ'' (Some (11 / 10))]"
    using t x d by (simp add: example_history)
  have 3: "symbol_calls example_gateway 10000 1 1 ''NOP'' = [QuoteCall ''NOP'']"
    using t n np by simp
  show ?thesis using 1 2 3 by (simp add: p)
qed

section \<open>Cache hits\<close>

lemma screen_put_symbol: "s \<in> set (screen_put e smb cap dRoi cp today d c) \<Longrightarrow> symbol s = smb"
  by (auto simp: screen_put_def Let_def split: option.splits if_splits)

lemma screen_call_symbol: "s \<in> set (screen_call e smb cap dRoi cp today d c) \<Longrightarrow> symbol s = smb"
  by (auto simp: screen_call_def Let_def split: option.splits if_splits)

lemma screen_dates_symbol:
  "s \<in> set (fst (screen_dates e smb cap dRoi cp today ds)) \<Longrightarrow> symbol s = smb"
  by (induction ds)
     (auto simp: screen_group_def split: option.splits prod.splits
           dest: screen_put_symbol screen_call_symbol)

lemma screen_symbol_symbol:
  "s \<in> set (fst (screen_symbol e smb cap dRoi today mn mx)) \<Longrightarrow> symbol s = smb"
  unfolding screen_symbol_def Let_def
  by (auto split: option.splits prod.splits) (metis fst_conv screen_dates_symbol)

lemma live_attempt_symbol:
  "s \<in> set (fst (live_attempt e cap dRoi weeks smb)) \<Longrightarrow> symbol s = smb"
  unfolding live_attempt_def by (rule screen_symbol_symbol)

lemma process_symbol_completed:
  assumes "cache_hit e (wheelCache st) (smb, cap, dRoi, weeks) = None"
    and "snd (snd (live_attempt e cap dRoi weeks smb)) = Completed"
    and "\<forall>s\<in>set (acc st). symbol s \<noteq> smb"
  shows "window_process e cap dRoi weeks st smb =
     st\<lparr>acc := acc st @ fst (live_attempt e cap dRoi weeks smb),
        wheelCache := (wheelCache st)((smb, cap, dRoi, weeks) \<mapsto>
           \<lparr>ts = Date_now e, cached = fst (live_attempt e cap dRoi weeks smb)\<rparr>),
        effects := effects st @ fst (snd (live_attempt e cap dRoi weeks smb))\<rparr>"
proof -
  obtain new cs where l: "live_attempt e cap dRoi weeks smb = (new, cs, Completed)"
    using assms(2) by (cases "live_attempt e cap dRoi weeks smb") auto
  have "\<forall>s\<in>set new. symbol s = smb" using live_attempt_symbol[of _ e cap dRoi weeks smb] l by simp
  then have "filter (\<lambda>s. symbol s = smb) (acc st @ new) = new"
    using assms(3) by (simp add: filter_empty_conv filter_id_conv)
  then show ?thesis using assms(1) l
    by (simp add: process_symbol_def Let_def live_attempt_def[symmetric])
qed

lemma process_symbol_hit:
  "cache_hit e (wheelCache st) (smb, cap, dRoi, weeks) = Some ent \<Longrightarrow>
   process_symbol e cap dRoi weeks today mn mx st smb = st\<lparr>acc := acc st @ cached ent\<rparr>"
  by (simp add: process_symbol_def)

lemma first_run:
  assumes "distinct symbols"
    and "\<forall>smb\<in>set symbols. cache_hit e (wheelCache st) (smb, cap, dRoi, weeks) = None"
    and "\<forall>smb\<in>set symbols. snd (snd (live_attempt e cap dRoi weeks smb)) = Completed"
    and "\<forall>s\<in>set (acc st). symbol s \<notin> set symbols"
  shows "acc (foldl (window_process e cap dRoi weeks) st symbols) =
           acc st @ concat (map (\<lambda>smb. fst (live_attempt e cap dRoi weeks smb)) symbols) \<and>
         (\<forall>smb\<in>set symbols.
            wheelCache (foldl (window_process e cap dRoi weeks) st symbols) (smb, cap, dRoi, weeks) =
              Some \<lparr>ts = Date_now e, cached = fst (live_attempt e cap dRoi weeks smb)\<rparr>)"
  using assms
proof (induction symbols arbitrary: st)
  case Nil
  then show ?case by simp
next
  case (Cons smb symbols)
  let ?L = "\<lambda>smb. fst (live_attempt e cap dRoi weeks smb)"
  let ?st = "window_process e cap dRoi weeks st smb"
  have st: "?st = st\<lparr>acc := acc st @ ?L smb,
        wheelCache := (wheelCache st)((smb, cap, dRoi, weeks) \<mapsto> \<lparr>ts = Date_now e, cached = ?L smb\<rparr>),
        effects := effects st @ fst (snd (live_attempt e cap dRoi weeks smb))\<rparr>"
    using Cons.prems by (intro process_symbol_completed) auto
  have 1: "distinct symbols" using Cons.prems by simp
  have 2: "\<forall>s\<in>set symbols. cache_hit e (wheelCache ?st) (s, cap, dRoi, weeks) = None"
  proof
    fix s assume s: "s \<in> set symbols"
    then have "s \<noteq> smb" using Cons.prems(1) by auto
    then show "cache_hit e (wheelCache ?st) (s, cap, dRoi, weeks) = None"
      using Cons.prems(2) s by (simp add: cache_hit_process_symbol_other)
  qed
  have 3: "\<forall>s\<in>set symbols. snd (snd (live_attempt e cap dRoi weeks s)) = Completed"
    using Cons.prems by simp
  have 4: "\<forall>s\<in>set (acc ?st). symbol s \<notin> set symbols"
    using Cons.prems unfolding st by (auto dest: live_attempt_symbol)
  note IH = Cons.IH[OF 1 2 3 4]
  have keep: "wheelCache (foldl (window_process e cap dRoi weeks) ?st symbols) (smb, cap, dRoi, weeks) =
        wheelCache ?st (smb, cap, dRoi, weeks)"
    using Cons.prems(1)
  proof (induction symbols arbitrary: st rule: rev_induct)
    case Nil
    then show ?case by simp
  next
    case (snoc x xs)
    then show ?case by (simp add: wheelCache_process_symbol_other)
  qed
  show ?case using IH keep by (simp add: st)
qed

lemma second_run:
  assumes "\<forall>smb\<in>set symbols. \<exists>ent. cache_hit e (wheelCache st) (smb, cap, dRoi, weeks) = Some ent \<and>
              cached ent = L smb"
  shows "foldl (process_symbol e cap dRoi weeks today mn mx) st symbols =
           st\<lparr>acc := acc st @ concat (map L symbols)\<rparr>"
  using assms
proof (induction symbols arbitrary: st)
  case Nil
  then show ?case by simp
next
  case (Cons smb symbols)
  then obtain ent where h: "cache_hit e (wheelCache st) (smb, cap, dRoi, weeks) = Some ent"
    and c: "cached ent = L smb" by auto
  show ?case using Cons.IH[of "st\<lparr>acc := acc st @ cached ent\<rparr>"] Cons.prems
    by (simp add: process_symbol_hit[OF h] c)
qed

lemma cache_hit_idem [simp]: "cache_hit e (cache_hit e c) k = cache_hit e c k"
  by (auto simp: cache_hit_def split: option.splits)

lemma cache_hit_upd:
  "cache_hit e (c(k \<mapsto> v)) k' =
     (if k' = k then (if Date_now e - ts v < CACHE_TTL_MS then Some v else None)
      else cache_hit e c k')"
  by (simp add: cache_hit_def)

lemma mock_fallback_view:
  "same_view e st st' \<Longrightarrow>
   same_view e (mock_fallback e cap dRoi weeks st smb) (mock_fallback e cap dRoi weeks st' smb)"
  by (auto simp: same_view_def mock_fallback_def Let_def split: prod.splits)

lemma process_symbol_view:
  assumes "same_view e st st'"
  shows "same_view e (process_symbol e cap dRoi weeks today mn mx st smb)
                     (process_symbol e cap dRoi weeks today mn mx st' smb)"
proof (cases "cache_hit e (wheelCache st) (smb, cap, dRoi, weeks)")
  case (Some ent)
  then have "cache_hit e (wheelCache st') (smb, cap, dRoi, weeks) = Some ent"
    using assms by (simp add: same_view_def)
  then show ?thesis using Some assms by (simp add: process_symbol_def same_view_def)
next
  case None
  then have n': "cache_hit e (wheelCache st') (smb, cap, dRoi, weeks) = None"
    using assms by (simp add: same_view_def)
  obtain new cs out where scr: "screen_symbol e smb cap dRoi today mn mx = (new, cs, out)"
    by (cases "screen_symbol e smb cap dRoi today mn mx") auto
  have v1: "same_view e (st\<lparr>acc := acc st @ new, effects := effects st @ cs\<rparr>)
                        (st'\<lparr>acc := acc st' @ new, effects := effects st' @ cs\<rparr>)"
    using assms by (simp add: same_view_def)
  show ?thesis
  proof (cases out)
    case Completed
    then show ?thesis using None n' scr assms
      by (simp add: process_symbol_def Let_def same_view_def cache_hit_upd)
  next
    case NoPrice
    then show ?thesis using None n' scr v1 by (simp add: process_symbol_def Let_def)
  next
    case Threw
    then show ?thesis using None n' scr mock_fallback_view[OF v1]
      by (simp add: process_symbol_def Let_def)
  qed
qed

lemma foldl_view:
  "same_view e st st' \<Longrightarrow>
   same_view e (foldl (process_symbol e cap dRoi weeks today mn mx) st symbols)
               (foldl (process_symbol e cap dRoi weeks today mn mx) st' symbols)"
  by (induction symbols arbitrary: st st') (simp_all add: process_symbol_view)

lemma run_symbols_stale:
  "acc (run_symbols e (cache_hit e c) cap dRoi weeks symbols) = acc (run_symbols e c cap dRoi weeks symbols) \<and>
   effects (run_symbols e (cache_hit e c) cap dRoi weeks symbols) = effects (run_symbols e c cap dRoi weeks symbols)"
proof -
  have "same_view e \<lparr>acc = [], wheelCache = cache_hit e c, draws = 0, effects = []\<rparr>
                    \<lparr>acc = [], wheelCache = c, draws = 0, effects = []\<rparr>"
    by (simp add: same_view_def)
  from foldl_view[OF this] show ?thesis
    by (simp add: run_symbols_foldl same_view_def)
qed

lemma POST_stale:
  "fst (POST e (cache_hit e c) request) = fst (POST e c request) \<and>
   snd (snd (POST e (cache_hit e c) request)) = snd (snd (POST e c request))"
  using run_symbols_stale[of e c]
  by (auto simp: POST_def Let_def split: option.splits prod.splits)

lemma abc_completed:
  "snd (snd (live_attempt example_gateway 10000 1 1 ''ABC'')) = Completed"
  by code_simp

lemma parse_abc: "parseSymbols (whitelist abc_request) = [''ABC'']"
  by code_simp

lemma abc_count:
  "length (suggestions_of (fst (POST example_gateway Map.empty (Some abc_request)))) = 2"
  by code_simp

lemma view_run_symbols:
  assumes "\<forall>k. cache_hit e c k = cache_hit e c' k"
  shows "acc (run_symbols e c cap dRoi weeks symbols) = acc (run_symbols e c' cap dRoi weeks symbols) \<and>
         effects (run_symbols e c cap dRoi weeks symbols) = effects (run_symbols e c' cap dRoi weeks symbols)"
proof -
  have "same_view e \<lparr>acc = [], wheelCache = c, draws = 0, effects = []\<rparr>
                    \<lparr>acc = [], wheelCache = c', draws = 0, effects = []\<rparr>"
    using assms by (simp add: same_view_def)
  from foldl_view[OF this] show ?thesis
    by (simp add: run_symbols_foldl same_view_def)
qed

lemma view_POST:
  assumes "\<forall>k. cache_hit e c k = cache_hit e c' k"
  shows "fst (POST e c request) = fst (POST e c' request) \<and>
         snd (snd (POST e c request)) = snd (snd (POST e c' request))"
  using view_run_symbols[OF assms]
  by (auto simp: POST_def Let_def split: option.splits prod.splits)

lemma POST_drop_expired:
  assumes "c k = Some ent" "CACHE_TTL_MS \<le> Date_now e - ts ent"
  shows "fst (POST e (c(k := None)) request) = fst (POST e c request) \<and>
         snd (snd (POST e (c(k := None)) request)) = snd (snd (POST e c request))"
proof (rule view_POST)
  show "\<forall>k'. cache_hit e (c(k := None)) k' = cache_hit e c k'"
    using assms by (simp add: cache_hit_def)
qed

lemma quote_in_screen_symbol:
  "QuoteCall smb \<in> set (fst (snd (screen_symbol e smb cap dRoi today mn mx)))"
  by (auto simp: screen_symbol_def Let_def split: option.splits prod.splits)

lemma quote_in_symbol_calls: "QuoteCall smb \<in> set (symbol_calls e cap dRoi weeks smb)"
proof -
  obtain new cs out where l: "live_attempt e cap dRoi weeks smb = (new, cs, out)"
    by (cases "live_attempt e cap dRoi weeks smb") auto
  have "QuoteCall smb \<in> set (fst (snd (live_attempt e cap dRoi weeks smb)))"
    unfolding live_attempt_def by (rule quote_in_screen_symbol)
  then have "QuoteCall smb \<in> set cs" by (simp add: l)
  then show ?thesis unfolding symbol_calls_eq l by (cases out) simp_all
qed

lemma expired_calls:
  "snd (snd (POST example_gateway_expired
          (fst (snd (POST example_gateway Map.empty (Some abc_request)))) (Some abc_request))) =
     [QuoteCall ''ABC'', OptionsCall ''ABC'', ChainCall ''ABC'' 1794139200000]"
  by code_simp

text \<open>
  Claim C7. Let a first request find no unexpired cache entry for its symbols and
  let the live path run to its end for each of them. A second request with the
  same body, at an instant less than ten minutes after the first, answers with
  the same response, makes no gateway or generator call and leaves the cache as
  it is: for every symbol it finds the entry the first request stored under the
  key of the symbol and the three clamped numbers, whose suggestions are the
  symbol's suggestions in the response. An entry that is ten minutes old or
  older is treated as absent: for every request, removing such an entry from the
  cache changes neither the response nor the calls (nor does removing all of
  them), and a request with the same body ten minutes or more after the first
  goes to the gateway for every symbol, with the calls each symbol gets when it
  is handled alone.
\<close>

theorem cache_idempotence:
  assumes "clampNumber (capital body) 500 5000000 = Some cap"
    and "clampNumber (desiredRoi body) 0 50 = Some dRoi"
    and "clampNumber (expirationWeeks body) 1 12 = Some weeks"
    and "\<forall>smb \<in> set (parseSymbols (whitelist body)). cache_hit e1 c0 (smb, cap, dRoi, weeks) = None"
    and "\<forall>smb \<in> set (parseSymbols (whitelist body)).
           snd (snd (live_attempt e1 cap dRoi weeks smb)) = Completed"
    and "POST e1 c0 (Some body) = (Json200 r1, c1, fx1)"
    and "Date_now e2 - Date_now e1 < CACHE_TTL_MS"
    and "POST e2 c1 (Some body) = (Json200 r2, c2, fx2)"
  shows "r2 = r1 \<and> fx2 = [] \<and> c2 = c1 \<and>
         (\<forall>smb \<in> set (parseSymbols (whitelist body)).
            \<exists>ent. cache_hit e2 c1 (smb, cap, dRoi, weeks) = Some ent \<and>
                  c1 (smb, cap, dRoi, weeks) = Some ent \<and> ts ent = Date_now e1 \<and>
                  set (cached ent) = {s \<in> set (suggestions r2). symbol s = smb}) \<and>
         (\<forall>e c request. fst (POST e (cache_hit e c) request) = fst (POST e c request) \<and>
                        snd (snd (POST e (cache_hit e c) request)) = snd (snd (POST e c request))) \<and>
         (\<forall>e c request k ent. c k = Some ent \<longrightarrow> CACHE_TTL_MS \<le> Date_now e - ts ent \<longrightarrow>
            fst (POST e (c(k := None)) request) = fst (POST e c request) \<and>
            snd (snd (POST e (c(k := None)) request)) = snd (snd (POST e c request))) \<and>
         (\<forall>e3 r3 c3 fx3. CACHE_TTL_MS \<le> Date_now e3 - Date_now e1 \<longrightarrow>
            POST e3 c1 (Some body) = (Json200 r3, c3, fx3) \<longrightarrow>
            fx3 = concat (map (symbol_calls e3 cap dRoi weeks) (parseSymbols (whitelist body))) \<and>
            (\<forall>smb \<in> set (parseSymbols (whitelist body)). QuoteCall smb \<in> set fx3))"
proof -
  let ?syms = "parseSymbols (whitelist body)"
  let ?L = "\<lambda>smb. fst (live_attempt e1 cap dRoi weeks smb)"
  obtain x y z where f: "capital body = Finite x" "desiredRoi body = Finite y" "expirationWeeks body = Finite z"
    and cl: "cap = min 5000000 (max 500 x)" "dRoi = min 50 (max 0 y)" "weeks = min 12 (max 1 z)"
    using assms(1-3) by (auto simp: clampNumber_def split: number.splits)
  have ok: "?syms \<noteq> []" "length ?syms \<le> 20"
    using assms(6) by (rule POST_Json200D, simp)+
  have p: "\<And>e c. POST e c (Some body) =
     (let st = run_symbols e c cap dRoi weeks ?syms in (Json200 (assemble (acc st)), wheelCache st, effects st))"
    using POST_200[OF f ok] by (simp add: cl)
  let ?st0 = "\<lparr>acc = [], wheelCache = c0, draws = 0, effects = []\<rparr>"
  have fr: "acc (run_symbols e1 c0 cap dRoi weeks ?syms) = concat (map ?L ?syms) \<and>
        (\<forall>smb\<in>set ?syms. wheelCache (run_symbols e1 c0 cap dRoi weeks ?syms) (smb, cap, dRoi, weeks) =
              Some \<lparr>ts = Date_now e1, cached = ?L smb\<rparr>)"
    using first_run[of ?syms e1 ?st0 cap dRoi weeks] assms(4,5) distinct_parseSymbols[of "whitelist body"]
    by (simp add: run_symbols_foldl)
  have r1: "r1 = assemble (concat (map ?L ?syms))"
    and c1: "c1 = wheelCache (run_symbols e1 c0 cap dRoi weeks ?syms)"
    using assms(6) fr unfolding p by (simp_all add: Let_def)
  have stored: "\<forall>smb\<in>set ?syms. c1 (smb, cap, dRoi, weeks) = Some \<lparr>ts = Date_now e1, cached = ?L smb\<rparr>"
    using fr unfolding c1 by simp
  have hit: "\<forall>smb\<in>set ?syms. cache_hit e2 c1 (smb, cap, dRoi, weeks) =
        Some \<lparr>ts = Date_now e1, cached = ?L smb\<rparr>"
    using stored assms(7) by (simp add: cache_hit_def)
  have sr: "run_symbols e2 c1 cap dRoi weeks ?syms =
        \<lparr>acc = concat (map ?L ?syms), wheelCache = c1, draws = 0, effects = []\<rparr>"
    using second_run[of ?syms e2 "\<lparr>acc = [], wheelCache = c1, draws = 0, effects = []\<rparr>" cap dRoi weeks ?L]
      hit by (simp add: run_symbols_foldl)
  have r2: "r2 = r1" "fx2 = []" "c2 = c1"
    using assms(8) unfolding p sr r1 by (simp_all add: Let_def)
  have slice: "\<forall>smb\<in>set ?syms. set (?L smb) = {s \<in> set (suggestions r2). symbol s = smb}"
    unfolding r2 r1 by (auto dest: live_attempt_symbol)
  have 4: "\<forall>smb \<in> set ?syms.
            \<exists>ent. cache_hit e2 c1 (smb, cap, dRoi, weeks) = Some ent \<and>
                  c1 (smb, cap, dRoi, weeks) = Some ent \<and> ts ent = Date_now e1 \<and>
                  set (cached ent) = {s \<in> set (suggestions r2). symbol s = smb}"
    using hit stored slice by simp
  have 5: "\<forall>e c request. fst (POST e (cache_hit e c) request) = fst (POST e c request) \<and>
                        snd (snd (POST e (cache_hit e c) request)) = snd (snd (POST e c request))"
    using POST_stale by simp
  have 6: "\<forall>e c request k ent. c k = Some ent \<longrightarrow> CACHE_TTL_MS \<le> Date_now e - ts ent \<longrightarrow>
            fst (POST e (c(k := None)) request) = fst (POST e c request) \<and>
            snd (snd (POST e (c(k := None)) request)) = snd (snd (POST e c request))"
    by (intro allI impI) (rule POST_drop_expired)
  have 7: "\<forall>e3 r3 c3 fx3. CACHE_TTL_MS \<le> Date_now e3 - Date_now e1 \<longrightarrow>
            POST e3 c1 (Some body) = (Json200 r3, c3, fx3) \<longrightarrow>
            fx3 = concat (map (symbol_calls e3 cap dRoi weeks) ?syms) \<and>
            (\<forall>smb \<in> set ?syms. QuoteCall smb \<in> set fx3)"
  proof (intro allI impI)
    fix e3 r3 c3 fx3
    assume late: "CACHE_TTL_MS \<le> Date_now e3 - Date_now e1"
      and p3: "POST e3 c1 (Some body) = (Json200 r3, c3, fx3)"
    have miss: "\<forall>smb\<in>set ?syms. cache_hit e3 c1 (smb, cap, dRoi, weeks) = None"
      using stored late by (simp add: cache_hit_def)
    have "fx3 = effects (run_symbols e3 c1 cap dRoi weeks ?syms)"
      using p3 unfolding p by (simp add: Let_def)
    also have "\<dots> = concat (map (\<lambda>smb.
        if cache_hit e3 c1 (smb, cap, dRoi, weeks) = None
        then symbol_calls e3 cap dRoi weeks smb else []) ?syms)"
      by (simp add: effects_run_symbols distinct_parseSymbols)
    also have "map (\<lambda>smb.
        if cache_hit e3 c1 (smb, cap, dRoi, weeks) = None
        then symbol_calls e3 cap dRoi weeks smb else []) ?syms =
        map (symbol_calls e3 cap dRoi weeks) ?syms"
      using miss by (intro map_cong refl) simp
    finally have a: "fx3 = concat (map (symbol_calls e3 cap dRoi weeks) ?syms)" .
    have "\<forall>smb \<in> set ?syms. QuoteCall smb \<in> set fx3"
    proof
      fix smb assume "smb \<in> set ?syms"
      then show "QuoteCall smb \<in> set fx3"
        unfolding a using quote_in_symbol_calls[of smb e3 cap dRoi weeks] by auto
    qed
    with a show "fx3 = concat (map (symbol_calls e3 cap dRoi weeks) ?syms) \<and>
            (\<forall>smb \<in> set ?syms. QuoteCall smb \<in> set fx3)" by simp
  qed
  have 1: "r2 = r1" and 2: "fx2 = []" and 3: "c2 = c1" using r2 by simp_all
  show ?thesis by (intro conjI 1 2 3 4 5 6 7)
qed

theorem cache_idempotence_witness:
  "fst (POST gateway_down_later
          (fst (snd (POST example_gateway Map.empty (Some abc_request)))) (Some abc_request)) =
     fst (POST example_gateway Map.empty (Some abc_request)) \<and>
   snd (snd (POST gateway_down_later
          (fst (snd (POST example_gateway Map.empty (Some abc_request)))) (Some abc_request))) = [] \<and>
   length (suggestions_of (fst (POST example_gateway Map.empty (Some abc_request)))) = 2 \<and>
   snd (snd (POST example_gateway_expired
          (fst (snd (POST example_gateway Map.empty (Some abc_request)))) (Some abc_request))) =
     symbol_calls example_gateway_expired 10000 1 1 ''ABC'' \<and>
   snd (snd (POST example_gateway_expired
          (fst (snd (POST example_gateway Map.empty (Some abc_request)))) (Some abc_request))) =
     [QuoteCall ''ABC'', OptionsCall ''ABC'', ChainCall ''ABC'' 1794139200000]"
proof -
  let ?st1 = "run_symbols example_gateway Map.empty 10000 1 1 [''ABC'']"
  let ?st2 = "run_symbols gateway_down_later (wheelCache ?st1) 10000 1 1 [''ABC'']"
  let ?st3 = "run_symbols example_gateway_expired (wheelCache ?st1) 10000 1 1 [''ABC'']"
  have c: "clampNumber (capital abc_request) 500 5000000 = Some 10000"
    "clampNumber (desiredRoi abc_request) 0 50 = Some 1"
    "clampNumber (expirationWeeks abc_request) 1 12 = Some 1"
    by (simp_all add: abc_request_def clampNumber_def)
  have p: "\<And>e c. POST e c (Some abc_request) =
     (let st = run_symbols e c 10000 1 1 [''ABC'']
      in (Json200 (assemble (acc st)), wheelCache st, effects st))"
    using POST_200[of abc_request 10000 1 1] parse_abc by (simp add: abc_request_def)
  have p1: "POST example_gateway Map.empty (Some abc_request) =
     (Json200 (assemble (acc ?st1)), wheelCache ?st1, effects ?st1)"
    by (simp add: p Let_def)
  have p2: "POST gateway_down_later (wheelCache ?st1) (Some abc_request) =
     (Json200 (assemble (acc ?st2)), wheelCache ?st2, effects ?st2)"
    by (simp add: p Let_def)
  have p3: "POST example_gateway_expired (wheelCache ?st1) (Some abc_request) =
     (Json200 (assemble (acc ?st3)), wheelCache ?st3, effects ?st3)"
    by (simp add: p Let_def)
  have m: "\<forall>smb \<in> set (parseSymbols (whitelist abc_request)).
             cache_hit example_gateway Map.empty (smb, 10000, 1, 1) = None"
    by simp
  have l: "\<forall>smb \<in> set (parseSymbols (whitelist abc_request)).
             snd (snd (live_attempt example_gateway 10000 1 1 smb)) = Completed"
    by (simp add: parse_abc abc_completed)
  have t: "Date_now gateway_down_later - Date_now example_gateway < CACHE_TTL_MS"
    by (simp add: gateway_down_later_def gateway_down_def example_gateway_def CACHE_TTL_MS_def)
  have t3: "CACHE_TTL_MS \<le> Date_now example_gateway_expired - Date_now example_gateway"
    by (simp add: example_gateway_expired_def example_gateway_def CACHE_TTL_MS_def)
  note fact = cache_idempotence[OF c m l p1 t p2]
  have a: "assemble (acc ?st2) = assemble (acc ?st1) \<and> effects ?st2 = []"
    using fact by simp
  have "\<forall>e3 r3 c3 fx3. CACHE_TTL_MS \<le> Date_now e3 - Date_now example_gateway \<longrightarrow>
            POST e3 (wheelCache ?st1) (Some abc_request) = (Json200 r3, c3, fx3) \<longrightarrow>
            fx3 = concat (map (symbol_calls e3 10000 1 1) (parseSymbols (whitelist abc_request)))"
    using fact by blast
  then have b: "effects ?st3 = symbol_calls example_gateway_expired 10000 1 1 ''ABC''"
    using t3 p3 by (simp add: parse_abc)
  show ?thesis using a b abc_count expired_calls by (simp add: p1 p2 p3)
qed

end
